theory Spec2Isabelle
  imports Main
begin

section \<open>Python values, exceptions and string methods\<close>

text \<open>
  The program is Python (\<^verbatim>\<open>src/app.py\<close>). Exceptions are values of a sum type: a computation
  that may raise returns \<open>error + 'a\<close>, with \<open>Inl\<close> for the raised exception. Every exception
  modelled here is a subclass of \<^verbatim>\<open>Exception\<close>, so a handler \<^verbatim>\<open>except Exception\<close> catches
  all of them. The calls of \<^verbatim>\<open>print\<close> and \<^verbatim>\<open>traceback.print_exc\<close> have no effect on any
  result and are left out.

  A Python \<^verbatim>\<open>str\<close> is a \<open>string\<close>; each \<open>char\<close> stands for one code point (the model covers
  the code points below 256). A dynamically typed value (the content of a model response, the
  result of \<^verbatim>\<open>json.loads\<close>, a slide dictionary) is a \<open>pyval\<close>; a \<^verbatim>\<open>dict\<close> with string keys is
  an association list. JSON numbers are represented by \<open>PInt\<close>: no operation of the program
  distinguishes a float from an int.
\<close>

datatype error =
    AttributeError | TypeError | KeyError | ValueError | ServiceError | OSError | PptxError

datatype pyval =
    PNone
  | PBool bool
  | PInt int
  | PStr string
  | PList "pyval list"
  | PDict "(string \<times> pyval) list"

definition bind_e :: "error + 'a \<Rightarrow> ('a \<Rightarrow> error + 'b) \<Rightarrow> error + 'b" where
  "bind_e m f = (case m of Inl e \<Rightarrow> Inl e | Inr v \<Rightarrow> f v)"

text \<open>\<^verbatim>\<open>try: body  except Exception as e: handler\<close>\<close>

definition try_except :: "error + 'a \<Rightarrow> (error \<Rightarrow> error + 'a) \<Rightarrow> error + 'a" where
  "try_except body handler = (case body of Inl e \<Rightarrow> handler e | Inr v \<Rightarrow> Inr v)"

text \<open>Truthiness, as tested by \<^verbatim>\<open>if v:\<close>.\<close>

fun py_truthy :: "pyval \<Rightarrow> bool" where
  "py_truthy PNone = False"
| "py_truthy (PBool b) = b"
| "py_truthy (PInt n) = (n \<noteq> 0)"
| "py_truthy (PStr s) = (s \<noteq> [])"
| "py_truthy (PList vs) = (vs \<noteq> [])"
| "py_truthy (PDict kvs) = (kvs \<noteq> [])"

text \<open>\<^verbatim>\<open>str.isspace\<close> on the code points below 256, and \<^verbatim>\<open>str.strip()\<close>.\<close>

definition py_isspace :: "char \<Rightarrow> bool" where
  "py_isspace c = (of_char c \<in> {9, 10, 11, 12, 13, 28, 29, 30, 31, 32, 133, 160 :: nat})"

definition strip :: "string \<Rightarrow> string" where
  "strip s = rev (dropWhile py_isspace (rev (dropWhile py_isspace s)))"

text \<open>
  \<^verbatim>\<open>s.split(sep)\<close> for a non-empty separator: a left-to-right scan for non-overlapping
  occurrences. \<open>acc\<close> is the current segment reversed, \<open>skip\<close> counts the characters of a
  matched separator still to be passed over.
\<close>

fun split_scan :: "string \<Rightarrow> string \<Rightarrow> nat \<Rightarrow> string \<Rightarrow> string list" where
  "split_scan sep acc skip [] = [rev acc]"
| "split_scan sep acc skip (c # cs) =
     (if 0 < skip then split_scan sep acc (skip - 1) cs
      else if take (length sep) (c # cs) = sep
        then rev acc # split_scan sep [] (length sep - 1) cs
      else split_scan sep (c # acc) 0 cs)"

definition split_str :: "string \<Rightarrow> string \<Rightarrow> string list" where
  "split_str sep s = split_scan sep [] 0 s"

text \<open>\<^verbatim>\<open>sub in s\<close> on strings.\<close>

fun contains :: "string \<Rightarrow> string \<Rightarrow> bool" where
  "contains sub [] = (sub = [])"
| "contains sub (c # cs) = (take (length sub) (c # cs) = sub \<or> contains sub cs)"

text \<open>
  Method calls on a dynamically typed value. Only a \<^verbatim>\<open>str\<close> has \<^verbatim>\<open>strip\<close> and \<^verbatim>\<open>split\<close>;
  on any other value the attribute lookup raises \<^verbatim>\<open>AttributeError\<close> (a \<^verbatim>\<open>list\<close> has no
  \<^verbatim>\<open>split\<close>).
\<close>

definition py_strip :: "pyval \<Rightarrow> error + pyval" where
  "py_strip v = (case v of PStr s \<Rightarrow> Inr (PStr (strip s)) | _ \<Rightarrow> Inl AttributeError)"

definition py_split :: "pyval \<Rightarrow> string \<Rightarrow> error + pyval" where
  "py_split v sep =
     (case v of
        PStr s \<Rightarrow> (if sep = [] then Inl ValueError else Inr (PList (map PStr (split_str sep s))))
      | _ \<Rightarrow> Inl AttributeError)"

text \<open>\<^verbatim>\<open>key in v\<close> for a string \<open>key\<close>.\<close>

definition py_in :: "string \<Rightarrow> pyval \<Rightarrow> error + bool" where
  "py_in key v =
     (case v of
        PDict kvs \<Rightarrow> Inr (key \<in> set (map fst kvs))
      | PList vs \<Rightarrow> Inr (PStr key \<in> set vs)
      | PStr s \<Rightarrow> Inr (contains key s)
      | _ \<Rightarrow> Inl TypeError)"

text \<open>\<^verbatim>\<open>v[key]\<close> for a string \<open>key\<close>.\<close>

definition py_getitem :: "pyval \<Rightarrow> string \<Rightarrow> error + pyval" where
  "py_getitem v key =
     (case v of
        PDict kvs \<Rightarrow> (case map_of kvs key of None \<Rightarrow> Inl KeyError | Some x \<Rightarrow> Inr x)
      | _ \<Rightarrow> Inl TypeError)"

text \<open>\<^verbatim>\<open>sep.join(v)\<close>: \<open>v\<close> must be an iterable of strings.\<close>

fun intercalate :: "string \<Rightarrow> string list \<Rightarrow> string" where
  "intercalate sep [] = []"
| "intercalate sep [x] = x"
| "intercalate sep (x # y # ys) = x @ sep @ intercalate sep (y # ys)"

fun strs_of :: "pyval list \<Rightarrow> error + string list" where
  "strs_of [] = Inr []"
| "strs_of (PStr s # vs) = bind_e (strs_of vs) (\<lambda>ss. Inr (s # ss))"
| "strs_of (_ # vs) = Inl TypeError"

definition py_join :: "string \<Rightarrow> pyval \<Rightarrow> error + string" where
  "py_join sep v =
     (case v of
        PList vs \<Rightarrow> bind_e (strs_of vs) (\<lambda>ss. Inr (intercalate sep ss))
      | PStr s \<Rightarrow> Inr (intercalate sep (map (\<lambda>c. [c]) s))
      | PDict kvs \<Rightarrow> Inr (intercalate sep (map fst kvs))
      | _ \<Rightarrow> Inl TypeError)"

text \<open>\<^verbatim>\<open>str(n)\<close> for an integer, as an f-string formats it.\<close>

fun str_nat :: "nat \<Rightarrow> string" where
  "str_nat n =
     (if n < 10 then [char_of (48 + n)] else str_nat (n div 10) @ [char_of (48 + n mod 10)])"

declare str_nat.simps [simp del]

definition str_int :: "int \<Rightarrow> string" where
  "str_int i = (if i < 0 then CHR ''-'' # str_nat (nat (- i)) else str_nat (nat i))"

text \<open>
  The three places where the language model is called: for the slide structure, and for the
  content and the image prompt of the slide at a given position.
\<close>

datatype llm_call = StructureCall | ContentCall nat | ImagePromptCall nat

section \<open>StructureBot.create\_slide\_structure\<close>

text \<open>The dictionaries built by the fallback loop (lines 434 to 457), for \<open>i\<close> in \<^verbatim>\<open>range(slides_count)\<close>.\<close>

definition fallback_slide :: "string \<Rightarrow> int \<Rightarrow> int \<Rightarrow> pyval" where
  "fallback_slide topic slides_count i =
     (if i = 0 then
        PDict [(''slide_number'', PInt 1),
               (''title'', PStr (''Introduction to '' @ topic)),
               (''design_type'', PStr ''title''),
               (''key_points'', PList [PStr ''Overview'', PStr ''Objectives'', PStr ''Key Topics''])]
      else if i = slides_count - 1 then
        PDict [(''slide_number'', PInt (i + 1)),
               (''title'', PStr ''Conclusion''),
               (''design_type'', PStr ''conclusion''),
               (''key_points'', PList [PStr ''Summary'', PStr ''Key Takeaways'', PStr ''Next Steps''])]
      else
        PDict [(''slide_number'', PInt (i + 1)),
               (''title'', PStr (topic @ '' - Part '' @ str_int i)),
               (''design_type'', PStr (if i mod 2 = 1 then ''content'' else ''image_focus'')),
               (''key_points'', PList [PStr ''Main concepts'', PStr ''Examples'', PStr ''Applications''])])"

definition fallback_structure :: "string \<Rightarrow> int \<Rightarrow> pyval" where
  "fallback_structure topic slides_count =
     PList (map (fallback_slide topic slides_count) [0 .. slides_count - 1])"

text \<open>The validation loop of lines 422 to 424; \<^verbatim>\<open>all\<close> stops at the first missing key.\<close>

fun all_keys_in :: "string list \<Rightarrow> pyval \<Rightarrow> error + bool" where
  "all_keys_in [] slide = Inr True"
| "all_keys_in (key # keys) slide =
     bind_e (py_in key slide) (\<lambda>b. if b then all_keys_in keys slide else Inr False)"

fun validate_slides :: "pyval list \<Rightarrow> error + unit" where
  "validate_slides [] = Inr ()"
| "validate_slides (slide # slides) =
     bind_e (all_keys_in [''slide_number'', ''title'', ''design_type'', ''key_points''] slide)
       (\<lambda>ok. if \<not> ok then Inl ValueError else validate_slides slides)"

text \<open>
  The clean-up of lines 402 to 410. The first condition is the truth value of the string
  literal itself, not a membership test; its branch calls \<^verbatim>\<open>split\<close> on the list that the
  first \<^verbatim>\<open>split\<close> returned.
\<close>

definition extract_json :: "pyval \<Rightarrow> error + pyval" where
  "extract_json structure_text =
     (if py_truthy (PStr ''```'') then
        bind_e (py_split structure_text ''```json'') (\<lambda>parts. py_split parts ''```'')
      else
        bind_e (py_in ''```'' structure_text) (\<lambda>fenced.
          if fenced then
            bind_e (py_split structure_text ''```'') (\<lambda>parts.
              case parts of
                PList ps \<Rightarrow> (if 3 \<le> length ps then Inr (ps ! 1) else Inr (last ps))
              | _ \<Rightarrow> Inl TypeError)
          else Inr structure_text))"

text \<open>The body of the \<^verbatim>\<open>try\<close> (lines 398 to 426).\<close>

definition structure_try ::
  "(llm_call \<Rightarrow> error + pyval) \<Rightarrow> (string \<Rightarrow> error + pyval) \<Rightarrow> error + pyval" where
  "structure_try llm_invoke json_loads =
     bind_e (llm_invoke StructureCall) (\<lambda>content.
     bind_e (py_strip content) (\<lambda>structure_text.
     bind_e (extract_json structure_text) (\<lambda>structure_text.
     bind_e (py_strip structure_text) (\<lambda>structure_text.
     bind_e (case structure_text of PStr s \<Rightarrow> json_loads s | _ \<Rightarrow> Inl TypeError) (\<lambda>structure.
       case structure of
         PList slides \<Rightarrow> bind_e (validate_slides slides) (\<lambda>_. Inr structure)
       | _ \<Rightarrow> Inl ValueError)))))"

text \<open>
  The whole method: the handler of line 428 builds the fallback structure. The result is
  \<open>Inr\<close> of what the method returns, \<open>Inl\<close> of what it would raise to its caller.
\<close>

definition create_slide_structure ::
  "(llm_call \<Rightarrow> error + pyval) \<Rightarrow> (string \<Rightarrow> error + pyval) \<Rightarrow> string \<Rightarrow> int \<Rightarrow> error + pyval" where
  "create_slide_structure llm_invoke json_loads topic slides_count =
     try_except (structure_try llm_invoke json_loads)
       (\<lambda>e. Inr (fallback_structure topic slides_count))"

section \<open>The external world\<close>

text \<open>
  The language model, the JSON parser of the standard library, the image service, the
  presentation library, the random identifiers and the file system are not code of this
  repository. They are parameters of the model, gathered in the record \<open>env\<close>:
  \<^item> \<open>llm_invoke c\<close> is the outcome of \<^verbatim>\<open>llm.invoke(prompt)\<close> at call \<open>c\<close>: the exception
    it raises, or \<^verbatim>\<open>response.content\<close>. The prompt text is not modelled; the calls are
    told apart by what they ask for (\<open>llm_call\<close>) and for which slide;
  \<^item> \<open>json_loads\<close> is \<^verbatim>\<open>json.loads\<close> on a string;
  \<^item> \<open>py_format v\<close> is \<^verbatim>\<open>str(v)\<close> for a value that is not a string, as an f-string uses it;
  \<^item> \<open>client\<close> is the global \<^verbatim>\<open>client\<close>: \<open>None\<close> when the image client could not be
    created, otherwise \<^verbatim>\<open>client.text_to_image\<close>, which for a slide number and a prompt
    raises, yields \<^verbatim>\<open>None\<close> or yields an image;
  \<^item> \<open>image_uuid k\<close> and \<open>deck_uuid\<close> are the values of \<^verbatim>\<open>uuid.uuid4().hex\<close> drawn for the
    image of slide \<open>k\<close> and for the presentation;
  \<^item> \<open>makedirs_raises d\<close> tells whether \<^verbatim>\<open>os.makedirs(d, exist_ok=True)\<close> raises;
  \<^item> \<open>pptx_raises i c\<close> tells whether the call \<open>c\<close> of the presentation library raises
    while slide \<open>i\<close> (counted from 0) is built;
  \<^item> \<open>prs_save p\<close> is what \<^verbatim>\<open>prs.save(p)\<close> does: it raises, returns without a file, or
    writes a file of the given byte length.

  An image object is described by what \<^verbatim>\<open>image.save(path, "PNG")\<close> does with it: it raises,
  returns without a file, or writes a file of some byte length that does or does not decode as
  an image.

  The file system is a map from paths to files. A file has a byte length, may decode as a
  raster image (\<^verbatim>\<open>Image.open(p).verify()\<close> passes), and may hold a saved presentation. Paths
  are POSIX paths.
\<close>

type_synonym geom = "nat \<times> nat \<times> nat \<times> nat"
  \<comment> \<open>left, top, width, height in tenths of an inch: \<^verbatim>\<open>Inches(8.5)\<close> is 85\<close>

type_synonym rgb = "nat \<times> nat \<times> nat"

datatype para_format =
  ParaFormat (size_pt: nat) (bold: bool) (italic: bool) (color: rgb) (centered: bool)
    (every_paragraph: bool)
  \<comment> \<open>\<open>every_paragraph\<close>: applied by a loop over all paragraphs, not to the first one only\<close>

datatype shape =
    Textbox geom string bool "para_format option"
      \<comment> \<open>position, text, \<^verbatim>\<open>word_wrap\<close>, paragraph format once it has been set\<close>
  | Picture geom string
  | AutoShape geom "rgb option"
      \<comment> \<open>the rounded rectangle, with its fill colour once it has been set\<close>

type_synonym slide = "shape list"

record stored_file =
  fsize :: nat
  decodes :: bool
  deck :: "slide list option"

type_synonym fs = "string \<Rightarrow> stored_file option"

datatype pil_image = PIL_Image (on_save: "error + (nat \<times> bool) option")

datatype pptx_call =
    TitleRender   \<comment> \<open>lines 165 to 183: the new slide and its title box\<close>
  | BodyBox       \<comment> \<open>\<^verbatim>\<open>add_textbox\<close> of a layout routine\<close>
  | BodyText      \<comment> \<open>the assignment of the text (and of \<^verbatim>\<open>word_wrap\<close>)\<close>
  | BodyFormat    \<comment> \<open>the paragraph formatting\<close>
  | AddPicture    \<comment> \<open>\<^verbatim>\<open>add_picture\<close>\<close>
  | AddShape      \<comment> \<open>\<^verbatim>\<open>add_shape\<close>\<close>
  | FillShape     \<comment> \<open>the fill of the decorative shape\<close>

record env =
  llm_invoke :: "llm_call \<Rightarrow> error + pyval"
  json_loads :: "string \<Rightarrow> error + pyval"
  py_format :: "pyval \<Rightarrow> string"
  client :: "(int \<Rightarrow> string \<Rightarrow> error + pil_image option) option"
  image_uuid :: "int \<Rightarrow> string"
  deck_uuid :: string
  makedirs_raises :: "string \<Rightarrow> bool"
  pptx_raises :: "nat \<Rightarrow> pptx_call \<Rightarrow> bool"
  prs_save :: "string \<Rightarrow> error + nat option"

section \<open>ContentBot\<close>

text \<open>A value interpolated into an f-string.\<close>

definition fstr :: "env \<Rightarrow> pyval \<Rightarrow> string" where
  "fstr env v = (case v of PStr s \<Rightarrow> s | _ \<Rightarrow> py_format env v)"

text \<open>\<^verbatim>\<open>response.content.strip()\<close> of a model call, inside its \<^verbatim>\<open>try\<close>.\<close>

definition invoke_stripped :: "env \<Rightarrow> llm_call \<Rightarrow> error + string" where
  "invoke_stripped env c =
     bind_e (llm_invoke env c) (\<lambda>content.
       case content of PStr s \<Rightarrow> Inr (strip s) | _ \<Rightarrow> Inl AttributeError)"

text \<open>
  \<^verbatim>\<open>generate_slide_content\<close>: the prompt is built before the \<^verbatim>\<open>try\<close>, so a slide dictionary
  without the three keys, or with key points that cannot be joined, raises to the caller. A
  failing model call is replaced by the templated sentence. \<open>i\<close> is the position of the slide.
\<close>

definition generate_slide_content :: "env \<Rightarrow> nat \<Rightarrow> pyval \<Rightarrow> string \<Rightarrow> error + string" where
  "generate_slide_content env i slide_info topic =
     bind_e (py_getitem slide_info ''title'') (\<lambda>title.
     bind_e (py_getitem slide_info ''design_type'') (\<lambda>design_type.
     bind_e (py_getitem slide_info ''key_points'') (\<lambda>key_points.
     bind_e (py_join '', '' key_points) (\<lambda>joined.
       try_except (invoke_stripped env (ContentCall i))
         (\<lambda>e. Inr (''Content about '' @ fstr env title @ '' related to '' @ topic
                    @ ''. This slide covers '' @ joined @ ''.''))))))"

definition generate_image_prompt :: "env \<Rightarrow> nat \<Rightarrow> pyval \<Rightarrow> string \<Rightarrow> error + string" where
  "generate_image_prompt env i slide_info topic =
     bind_e (py_getitem slide_info ''title'') (\<lambda>title.
     bind_e (py_getitem slide_info ''design_type'') (\<lambda>design_type.
       try_except (invoke_stripped env (ImagePromptCall i))
         (\<lambda>e. Inr (''Professional illustration about '' @ topic
                    @ '', modern design, high quality, business presentation style''))))"

section \<open>PPTBot.generate\_image\<close>

text \<open>
  The body of the \<^verbatim>\<open>try\<close> (lines 111 to 148) returns the exception raised or the value
  returned, together with the file system it leaves. Nothing is written before the call of
  \<^verbatim>\<open>image.save\<close>, and nothing raises after it.
\<close>

definition generate_image_try :: "env \<Rightarrow> fs \<Rightarrow> string \<Rightarrow> int \<Rightarrow> (error + string option) \<times> fs" where
  "generate_image_try env files prompt slide_number =
     (case client env of
        None \<Rightarrow> (Inr None, files)
      | Some text_to_image \<Rightarrow>
          (let enhanced_prompt = prompt @
                 '', high quality, professional, clean design, presentation style, no text'' in
           case text_to_image slide_number enhanced_prompt of
             Inl e \<Rightarrow> (Inl e, files)
           | Inr None \<Rightarrow> (Inr None, files)
           | Inr (Some img) \<Rightarrow>
               (let image_filename = ''slide_'' @ str_int slide_number @ ''_''
                      @ take 8 (image_uuid env slide_number) @ ''.png'';
                    image_path = ''static/images/'' @ image_filename in
                if makedirs_raises env ''static/images'' then (Inl OSError, files)
                else
                  (case on_save img of
                     Inl e \<Rightarrow> (Inl e, files)
                   | Inr written \<Rightarrow>
                       (let files' =
                          (case written of
                             None \<Rightarrow> files
                           | Some (n, ok) \<Rightarrow>
                               files(image_path \<mapsto> \<lparr>fsize = n, decodes = ok, deck = None\<rparr>)) in
                        if files' image_path \<noteq> None
                        then (Inr (Some (''images/'' @ image_filename)), files')
                        else (Inr None, files'))))))"

text \<open>The method: the handler of line 150 returns \<^verbatim>\<open>None\<close>.\<close>

definition generate_image :: "env \<Rightarrow> fs \<Rightarrow> string \<Rightarrow> int \<Rightarrow> (error + string option) \<times> fs" where
  "generate_image env files prompt slide_number =
     (case generate_image_try env files prompt slide_number of
        (Inl e, files') \<Rightarrow> (Inr None, files')
      | (Inr r, files') \<Rightarrow> (Inr r, files'))"

section \<open>The slide records and the layout routines\<close>

text \<open>
  A slide record is the dictionary that \<^verbatim>\<open>generate_presentation\<close> appends to
  \<^verbatim>\<open>slides_data\<close> (lines 71 to 78): all six keys are present, \<^verbatim>\<open>content\<close> and
  \<^verbatim>\<open>image_prompt\<close> are strings, \<^verbatim>\<open>image_path\<close> is \<^verbatim>\<open>None\<close> or a string; the title and the
  design type are what the slide structure holds.
\<close>

record slide_data =
  slide_number :: int
  title :: pyval
  design_type :: pyval
  content :: string
  image_prompt :: string
  image_path :: "string option"

text \<open>\<^verbatim>\<open>s[:n] + "..." if len(s) > n else s\<close>\<close>

definition truncated :: "nat \<Rightarrow> string \<Rightarrow> string" where
  "truncated n s = (if n < length s then take n s @ ''...'' else s)"

text \<open>\<^verbatim>\<open>if slide_data['image_path']:\<close>\<close>

definition path_truthy :: "string option \<Rightarrow> bool" where
  "path_truthy p = (case p of None \<Rightarrow> False | Some s \<Rightarrow> s \<noteq> [])"

text \<open>
  \<^verbatim>\<open>add_image_to_slide\<close> (lines 229 to 269). A layout routine changes the slide it is given,
  and what it has added stays when it raises: a routine returns its outcome together with the
  slide.
\<close>

definition add_image_try ::
  "env \<Rightarrow> fs \<Rightarrow> nat \<Rightarrow> slide \<Rightarrow> string option \<Rightarrow> geom \<Rightarrow> (error + bool) \<times> slide" where
  "add_image_try env files i slide path g =
     (case path of
        None \<Rightarrow> (Inr False, slide)
      | Some ipath \<Rightarrow>
          if ipath = [] then (Inr False, slide)
          else
            (let full_image_path =
               (if take 1 ipath \<noteq> ''/'' then ''static/'' @ ipath else ipath) in
             case files full_image_path of
               None \<Rightarrow> (Inr False, slide)
             | Some f \<Rightarrow>
                 if fsize f = 0 then (Inr False, slide)
                 else if \<not> decodes f then (Inr False, slide)
                 else if pptx_raises env i AddPicture then (Inl PptxError, slide)
                 else (Inr True, slide @ [Picture g full_image_path])))"

definition add_image_to_slide ::
  "env \<Rightarrow> fs \<Rightarrow> nat \<Rightarrow> slide \<Rightarrow> string option \<Rightarrow> geom \<Rightarrow> (error + bool) \<times> slide" where
  "add_image_to_slide env files i slide path g =
     (case add_image_try env files i slide path g of
        (Inl e, slide') \<Rightarrow> (Inr False, slide')
      | (Inr b, slide') \<Rightarrow> (Inr b, slide'))"

text \<open>
  The three steps every routine takes for its text: \<^verbatim>\<open>add_textbox\<close>, the assignment of the
  text, the paragraph formatting. Each may raise in the library, leaving what was done.
\<close>

definition add_text_block ::
  "env \<Rightarrow> nat \<Rightarrow> slide \<Rightarrow> geom \<Rightarrow> string \<Rightarrow> bool \<Rightarrow> para_format \<Rightarrow> (error + unit) \<times> slide" where
  "add_text_block env i slide g s wrap pf =
     (if pptx_raises env i BodyBox then (Inl PptxError, slide)
      else if pptx_raises env i BodyText then (Inl PptxError, slide @ [Textbox g [] False None])
      else if pptx_raises env i BodyFormat then (Inl PptxError, slide @ [Textbox g s wrap None])
      else (Inr (), slide @ [Textbox g s wrap (Some pf)]))"

text \<open>The image of a routine: added only when \<^verbatim>\<open>slide_data['image_path']\<close> is truthy.\<close>

definition add_optional_image ::
  "env \<Rightarrow> fs \<Rightarrow> nat \<Rightarrow> slide \<Rightarrow> slide_data \<Rightarrow> geom \<Rightarrow> slide" where
  "add_optional_image env files i slide sd g =
     (if path_truthy (image_path sd)
      then snd (add_image_to_slide env files i slide (image_path sd) g)
      else slide)"

definition add_title_slide_content ::
  "env \<Rightarrow> fs \<Rightarrow> nat \<Rightarrow> slide \<Rightarrow> slide_data \<Rightarrow> (error + unit) \<times> slide" where
  "add_title_slide_content env files i slide sd =
     (case add_text_block env i slide (20, 25, 120, 10) (truncated 100 (content sd)) False
             (ParaFormat 24 False False (89, 89, 89) True False) of
        (Inl e, slide') \<Rightarrow> (Inl e, slide')
      | (Inr _, slide') \<Rightarrow> (Inr (), add_optional_image env files i slide' sd (60, 40, 40, 30)))"

definition add_content_slide ::
  "env \<Rightarrow> fs \<Rightarrow> nat \<Rightarrow> slide \<Rightarrow> slide_data \<Rightarrow> (error + unit) \<times> slide" where
  "add_content_slide env files i slide sd =
     (case add_text_block env i slide (5, 20, 70, 60) (content sd) True
             (ParaFormat 16 False False (51, 51, 51) False True) of
        (Inl e, slide') \<Rightarrow> (Inl e, slide')
      | (Inr _, slide') \<Rightarrow> (Inr (), add_optional_image env files i slide' sd (85, 20, 65, 50)))"

definition add_image_focus_slide ::
  "env \<Rightarrow> fs \<Rightarrow> nat \<Rightarrow> slide \<Rightarrow> slide_data \<Rightarrow> (error + unit) \<times> slide" where
  "add_image_focus_slide env files i slide sd =
     add_text_block env i (add_optional_image env files i slide sd (20, 20, 120, 60))
       (10, 82, 140, 8) (truncated 150 (content sd)) False
       (ParaFormat 14 False True (102, 102, 102) True False)"

text \<open>The decorative shape of the conclusion slide is in a \<^verbatim>\<open>try\<close> of its own (lines 356 to 364).\<close>

definition add_decorative_shape :: "env \<Rightarrow> nat \<Rightarrow> slide \<Rightarrow> slide" where
  "add_decorative_shape env i slide =
     (if pptx_raises env i AddShape then slide
      else if pptx_raises env i FillShape then slide @ [AutoShape (70, 70, 20, 5) None]
      else slide @ [AutoShape (70, 70, 20, 5) (Some (31, 78, 121))])"

definition add_conclusion_slide ::
  "env \<Rightarrow> fs \<Rightarrow> nat \<Rightarrow> slide \<Rightarrow> slide_data \<Rightarrow> (error + unit) \<times> slide" where
  "add_conclusion_slide env files i slide sd =
     (case add_text_block env i slide (20, 25, 120, 40) (content sd) False
             (ParaFormat 20 False False (31, 78, 121) True True) of
        (Inl e, slide') \<Rightarrow> (Inl e, slide')
      | (Inr _, slide') \<Rightarrow>
          (Inr (), add_decorative_shape env i
                     (add_optional_image env files i slide' sd (60, 65, 40, 20))))"

definition add_default_slide ::
  "env \<Rightarrow> fs \<Rightarrow> nat \<Rightarrow> slide \<Rightarrow> slide_data \<Rightarrow> (error + unit) \<times> slide" where
  "add_default_slide env files i slide sd = add_content_slide env files i slide sd"

section \<open>PPTBot.create\_powerpoint\<close>

text \<open>
  Lines 165 to 183: the new slide with its title box. These lines are outside the inner
  \<^verbatim>\<open>try\<close>; the library refuses a title that is not a string.
\<close>

definition title_box :: "string \<Rightarrow> shape" where
  "title_box s = Textbox (5, 5, 150, 15) s False (Some (ParaFormat 36 True False (31, 78, 121) True False))"

definition render_title :: "env \<Rightarrow> nat \<Rightarrow> slide_data \<Rightarrow> error + slide" where
  "render_title env i sd =
     (if pptx_raises env i TitleRender then Inl PptxError
      else case title sd of PStr s \<Rightarrow> Inr [title_box s] | _ \<Rightarrow> Inl TypeError)"

text \<open>Lines 187 to 196: the choice of the layout routine.\<close>

definition render_layout ::
  "env \<Rightarrow> fs \<Rightarrow> nat \<Rightarrow> slide \<Rightarrow> slide_data \<Rightarrow> (error + unit) \<times> slide" where
  "render_layout env files i slide sd =
     (if design_type sd = PStr ''title'' then add_title_slide_content env files i slide sd
      else if design_type sd = PStr ''content'' then add_content_slide env files i slide sd
      else if design_type sd = PStr ''image_focus'' then add_image_focus_slide env files i slide sd
      else if design_type sd = PStr ''conclusion'' then add_conclusion_slide env files i slide sd
      else add_default_slide env files i slide sd)"

text \<open>
  Lines 186 to 204: the inner \<^verbatim>\<open>try\<close>. Its handler prints and continues with the next slide;
  the slide stays in the presentation as the routine left it.
\<close>

definition render_layout_guarded :: "env \<Rightarrow> fs \<Rightarrow> nat \<Rightarrow> slide \<Rightarrow> slide_data \<Rightarrow> slide" where
  "render_layout_guarded env files i slide sd =
     (case render_layout env files i slide sd of
        (Inl slide_error, slide') \<Rightarrow> slide'
      | (Inr _, slide') \<Rightarrow> slide')"

text \<open>The loop of line 164, from slide \<open>i\<close> on; the result is the list of slides added.\<close>

fun build_slides :: "env \<Rightarrow> fs \<Rightarrow> nat \<Rightarrow> slide_data list \<Rightarrow> error + slide list" where
  "build_slides env files i [] = Inr []"
| "build_slides env files i (sd # sds) =
     bind_e (render_title env i sd) (\<lambda>slide.
     bind_e (build_slides env files (Suc i) sds) (\<lambda>rest.
       Inr (render_layout_guarded env files i slide sd # rest)))"

text \<open>\<^verbatim>\<open>topic.replace(' ', '_').replace('/', '_')\<close>\<close>

definition safe_topic :: "string \<Rightarrow> string" where
  "safe_topic topic = map (\<lambda>c. if c = CHR '' '' \<or> c = CHR ''/'' then CHR ''_'' else c) topic"

definition ppt_filename :: "env \<Rightarrow> string \<Rightarrow> string" where
  "ppt_filename env topic = safe_topic topic @ ''_'' @ take 8 (deck_uuid env) @ ''.pptx''"

text \<open>The body of the outer \<^verbatim>\<open>try\<close> (lines 157 to 222) and the method with its handler.\<close>

definition create_powerpoint_try ::
  "env \<Rightarrow> fs \<Rightarrow> slide_data list \<Rightarrow> string \<Rightarrow> (error + string option) \<times> fs" where
  "create_powerpoint_try env files slides_data topic =
     (case build_slides env files 0 slides_data of
        Inl e \<Rightarrow> (Inl e, files)
      | Inr prs \<Rightarrow>
          (let ppt_path = ''static/presentations/'' @ ppt_filename env topic in
           if makedirs_raises env ''static/presentations'' then (Inl OSError, files)
           else
             (case prs_save env ppt_path of
                Inl e \<Rightarrow> (Inl e, files)
              | Inr written \<Rightarrow>
                  (let files' =
                     (case written of
                        None \<Rightarrow> files
                      | Some n \<Rightarrow>
                          files(ppt_path \<mapsto> \<lparr>fsize = n, decodes = False, deck = Some prs\<rparr>)) in
                   if files' ppt_path \<noteq> None
                   then (Inr (Some (''presentations/'' @ ppt_filename env topic)), files')
                   else (Inr None, files')))))"

definition create_powerpoint ::
  "env \<Rightarrow> fs \<Rightarrow> slide_data list \<Rightarrow> string \<Rightarrow> (error + string option) \<times> fs" where
  "create_powerpoint env files slides_data topic =
     (case create_powerpoint_try env files slides_data topic of
        (Inl e, files') \<Rightarrow> (Inr None, files')
      | (Inr r, files') \<Rightarrow> (Inr r, files'))"

section \<open>PPTBot.generate\_presentation\<close>

text \<open>Step 2 (lines 67 to 78), from position \<open>i\<close> on.\<close>

fun write_slides :: "env \<Rightarrow> string \<Rightarrow> nat \<Rightarrow> pyval list \<Rightarrow> error + slide_data list" where
  "write_slides env topic i [] = Inr []"
| "write_slides env topic i (slide_info # rest) =
     bind_e (generate_slide_content env i slide_info topic) (\<lambda>content.
     bind_e (generate_image_prompt env i slide_info topic) (\<lambda>image_prompt.
     bind_e (py_getitem slide_info ''title'') (\<lambda>title.
     bind_e (py_getitem slide_info ''design_type'') (\<lambda>design_type.
     bind_e (write_slides env topic (Suc i) rest) (\<lambda>others.
       Inr (\<lparr>slide_number = int i + 1, title = title, design_type = design_type,
             content = content, image_prompt = image_prompt, image_path = None\<rparr> # others))))))"

text \<open>Step 3 (lines 82 to 87): the image of each slide, when a client is configured.\<close>

fun generate_images :: "env \<Rightarrow> fs \<Rightarrow> slide_data list \<Rightarrow> (error + slide_data list) \<times> fs" where
  "generate_images env files [] = (Inr [], files)"
| "generate_images env files (sd # sds) =
     (if client env \<noteq> None then
        (case generate_image env files (image_prompt sd) (slide_number sd) of
           (Inl e, files') \<Rightarrow> (Inl e, files')
         | (Inr ipath, files') \<Rightarrow>
             (case generate_images env files' sds of
                (Inl e, files'') \<Rightarrow> (Inl e, files'')
              | (Inr others, files'') \<Rightarrow> (Inr (sd\<lparr>image_path := ipath\<rparr> # others), files'')))
      else
        (case generate_images env files sds of
           (Inl e, files') \<Rightarrow> (Inl e, files')
         | (Inr others, files') \<Rightarrow> (Inr (sd # others), files')))"

datatype pipeline_result =
    Success "slide_data list" "string option"
      \<comment> \<open>\<^verbatim>\<open>'success': True\<close> with \<^verbatim>\<open>slides_data\<close> and \<^verbatim>\<open>ppt_path\<close>\<close>
  | Failure error
      \<comment> \<open>\<^verbatim>\<open>'success': False\<close> with the error\<close>

text \<open>
  The body of the \<^verbatim>\<open>try\<close> (lines 59 to 98) and the method with its handler. The slide
  structure is always a list, by the check of line 419 or from the fallback; the last case of
  the first distinction is there for the other values of the type only.
\<close>

definition generate_presentation_try ::
  "env \<Rightarrow> fs \<Rightarrow> string \<Rightarrow> int \<Rightarrow> (error + slide_data list \<times> string option) \<times> fs" where
  "generate_presentation_try env files topic slides_count =
     (case create_slide_structure (llm_invoke env) (json_loads env) topic slides_count of
        Inl e \<Rightarrow> (Inl e, files)
      | Inr (PList slide_structure) \<Rightarrow>
          (case write_slides env topic 0 slide_structure of
             Inl e \<Rightarrow> (Inl e, files)
           | Inr slides_data \<Rightarrow>
               (case generate_images env files slides_data of
                  (Inl e, files') \<Rightarrow> (Inl e, files')
                | (Inr slides_data', files') \<Rightarrow>
                    (case create_powerpoint env files' slides_data' topic of
                       (Inl e, files'') \<Rightarrow> (Inl e, files'')
                     | (Inr ppt_path, files'') \<Rightarrow> (Inr (slides_data', ppt_path), files''))))
      | Inr _ \<Rightarrow> (Inl TypeError, files))"

definition generate_presentation :: "env \<Rightarrow> fs \<Rightarrow> string \<Rightarrow> int \<Rightarrow> pipeline_result \<times> fs" where
  "generate_presentation env files topic slides_count =
     (case generate_presentation_try env files topic slides_count of
        (Inl e, files') \<Rightarrow> (Failure e, files')
      | (Inr (slides_data, ppt_path), files') \<Rightarrow> (Success slides_data ppt_path, files'))"

section \<open>A sample environment\<close>

text \<open>
  An environment to evaluate the model on: the language model and the image service raise at
  every call, the presentation library and the file system work. Other environments are
  obtained from it by record update.
\<close>

definition failing_world :: env where
  "failing_world =
     \<lparr>llm_invoke = (\<lambda>c. Inl ServiceError),
      json_loads = (\<lambda>s. Inl ValueError),
      py_format = (\<lambda>v. ''?''),
      client = Some (\<lambda>k p. Inl ServiceError),
      image_uuid = (\<lambda>k. ''0a1b2c3d4e5f60718293a4b5c6d7e8f9''),
      deck_uuid = ''f9e8d7c6b5a493827160f5e4d3c2b1a0'',
      makedirs_raises = (\<lambda>d. False),
      pptx_raises = (\<lambda>i c. False),
      prs_save = (\<lambda>p. Inr (Some 30000))\<rparr>"

text \<open>A slide record without an image.\<close>

definition sample_slide :: slide_data where
  "sample_slide =
     \<lparr>slide_number = 1, title = PStr ''Wind'', design_type = PStr ''title'',
      content = ''Wind turns.'', image_prompt = ''a wind farm'', image_path = None\<rparr>"

section \<open>Properties of the outline planner\<close>

text \<open>
  The clean-up branch of line 402 is always taken, and its second \<^verbatim>\<open>split\<close> is called on a
  list: whatever the text, the extraction raises.
\<close>

lemma extract_json_raises: "\<exists>e. extract_json v = Inl e"
  by (cases v) (simp_all add: extract_json_def py_split_def bind_e_def)

lemma structure_try_raises: "\<exists>e. structure_try llm loads = Inl e"
proof (cases "llm StructureCall")
  case (Inl e)
  then show ?thesis by (simp add: structure_try_def bind_e_def)
next
  case (Inr resp)
  show ?thesis
  proof (cases "py_strip resp")
    case (Inl e)
    with Inr show ?thesis by (simp add: structure_try_def bind_e_def)
  next
    case stripped: (Inr stext)
    obtain e where "extract_json stext = Inl e"
      using extract_json_raises by blast
    with Inr stripped show ?thesis by (simp add: structure_try_def bind_e_def)
  qed
qed

lemma create_slide_structure_fallback:
  "create_slide_structure llm loads topic n = Inr (fallback_structure topic n)"
proof -
  obtain e where "structure_try llm loads = Inl e"
    using structure_try_raises by blast
  then show ?thesis by (simp add: create_slide_structure_def try_except_def)
qed

lemma nth_fallback:
  "i < nat n \<Longrightarrow>
   map (fallback_slide topic n) [0 .. n - 1] ! i = fallback_slide topic n (int i)"
  by simp

lemma fallback_first:
  "fallback_slide topic n 0 =
     PDict [(''slide_number'', PInt 1), (''title'', PStr (''Introduction to '' @ topic)),
            (''design_type'', PStr ''title''),
            (''key_points'', PList [PStr ''Overview'', PStr ''Objectives'', PStr ''Key Topics''])]"
  by (simp add: fallback_slide_def)

lemma fallback_last:
  "2 \<le> n \<Longrightarrow>
   fallback_slide topic n (n - 1) =
     PDict [(''slide_number'', PInt n), (''title'', PStr ''Conclusion''),
            (''design_type'', PStr ''conclusion''),
            (''key_points'', PList [PStr ''Summary'', PStr ''Key Takeaways'', PStr ''Next Steps''])]"
  by (simp add: fallback_slide_def)

lemma fallback_interior:
  "0 < i \<Longrightarrow> i < n - 1 \<Longrightarrow>
   fallback_slide topic n i =
     PDict [(''slide_number'', PInt (i + 1)), (''title'', PStr (topic @ '' - Part '' @ str_int i)),
            (''design_type'', PStr (if i mod 2 = 1 then ''content'' else ''image_focus'')),
            (''key_points'', PList [PStr ''Main concepts'', PStr ''Examples'', PStr ''Applications''])]"
  by (simp add: fallback_slide_def)

text \<open>
  C1. A response that wraps a valid JSON array in two fence markers: the claim says that the
  interior text is extracted and parsed and that the parsed list is returned. At this response,
  and with a parser that parses the interior text to the one-slide list it encodes, the method
  returns the three-slide fallback structure, not the parsed list.
\<close>

theorem fenced_json_response_yields_fallback:
  \<open>create_slide_structure
     (\<lambda>c. Inr (PStr (''```'' @ [CHR 0x0A]
        @ ''[{"slide_number": 1, "title": "Solar", "design_type": "title", "key_points": []}]''
        @ [CHR 0x0A] @ ''```'')))
     (\<lambda>s. if s = ''[{"slide_number": 1, "title": "Solar", "design_type": "title", "key_points": []}]''
          then Inr (PList [PDict [(''slide_number'', PInt 1), (''title'', PStr ''Solar''),
                                  (''design_type'', PStr ''title''), (''key_points'', PList [])]])
          else Inl ValueError)
     ''Solar'' 3
   = Inr (PList
       [PDict [(''slide_number'', PInt 1), (''title'', PStr ''Introduction to Solar''),
               (''design_type'', PStr ''title''),
               (''key_points'', PList [PStr ''Overview'', PStr ''Objectives'', PStr ''Key Topics''])],
        PDict [(''slide_number'', PInt 2), (''title'', PStr ''Solar - Part 1''),
               (''design_type'', PStr ''content''),
               (''key_points'', PList [PStr ''Main concepts'', PStr ''Examples'', PStr ''Applications''])],
        PDict [(''slide_number'', PInt 3), (''title'', PStr ''Conclusion''),
               (''design_type'', PStr ''conclusion''),
               (''key_points'', PList [PStr ''Summary'', PStr ''Key Takeaways'', PStr ''Next Steps''])]])\<close>
  by code_simp

text \<open>
  C3. For every slide count of at least 2 (so for every count from 3 to 20) and every topic, the
  fallback structure is a list of exactly that many slides; the first has the design type
  \<^verbatim>\<open>title\<close> and the key points Overview, Objectives, Key Topics; the last has the design type
  \<^verbatim>\<open>conclusion\<close> and the key points Summary, Key Takeaways, Next Steps; every slide between
  them has the design type \<^verbatim>\<open>content\<close> at an odd position and \<^verbatim>\<open>image_focus\<close> at an even one
  (positions counted from 0), with the key points Main concepts, Examples, Applications. The
  structure is a function of the topic and the count alone: two runs whose \<^verbatim>\<open>try\<close> fails,
  whatever the model and the parser did, return the same structure.
\<close>

theorem fallback_structure_shape:
  assumes "2 \<le> n"
  shows "\<exists>slides.
     fallback_structure topic n = PList slides
   \<and> length slides = nat n
   \<and> py_getitem (slides ! 0) ''design_type'' = Inr (PStr ''title'')
   \<and> py_getitem (slides ! 0) ''key_points''
       = Inr (PList [PStr ''Overview'', PStr ''Objectives'', PStr ''Key Topics''])
   \<and> py_getitem (slides ! (nat n - 1)) ''design_type'' = Inr (PStr ''conclusion'')
   \<and> py_getitem (slides ! (nat n - 1)) ''key_points''
       = Inr (PList [PStr ''Summary'', PStr ''Key Takeaways'', PStr ''Next Steps''])
   \<and> (\<forall>i. 0 < i \<and> i < nat n - 1 \<longrightarrow>
         py_getitem (slides ! i) ''design_type''
           = Inr (PStr (if odd i then ''content'' else ''image_focus''))
       \<and> py_getitem (slides ! i) ''key_points''
           = Inr (PList [PStr ''Main concepts'', PStr ''Examples'', PStr ''Applications'']))
   \<and> (\<forall>llm loads llm' loads' e e'.
         structure_try llm loads = Inl e \<and> structure_try llm' loads' = Inl e' \<longrightarrow>
         create_slide_structure llm loads topic n = Inr (PList slides)
       \<and> create_slide_structure llm' loads' topic n = Inr (PList slides))"
proof -
  let ?slides = "map (fallback_slide topic n) [0 .. n - 1]"
  have first: "?slides ! 0 = fallback_slide topic n 0"
    using assms nth_fallback [of 0 n topic] by simp
  have "?slides ! (nat n - 1) = fallback_slide topic n (int (nat n - 1))"
    using assms by (intro nth_fallback) simp
  moreover have "int (nat n - 1) = n - 1"
    using assms by simp
  ultimately have last: "?slides ! (nat n - 1) = fallback_slide topic n (n - 1)"
    by simp
  have interior:
    "py_getitem (?slides ! i) ''design_type''
       = Inr (PStr (if odd i then ''content'' else ''image_focus''))
     \<and> py_getitem (?slides ! i) ''key_points''
       = Inr (PList [PStr ''Main concepts'', PStr ''Examples'', PStr ''Applications''])"
    if "0 < i" and "i < nat n - 1" for i
  proof -
    have "?slides ! i = fallback_slide topic n (int i)"
      using that by (intro nth_fallback) simp
    moreover have "0 < int i" and "int i < n - 1"
      using that by simp_all
    moreover have "(int i mod 2 = 1) = odd i"
      by presburger
    ultimately show ?thesis
      by (simp add: fallback_interior py_getitem_def)
  qed
  have pure: "create_slide_structure llm loads topic n = Inr (PList ?slides)"
    if "structure_try llm loads = Inl e" for llm loads e
    using that by (simp add: create_slide_structure_def try_except_def fallback_structure_def)
  show ?thesis
  proof (intro exI [of _ ?slides] conjI allI impI)
    show "fallback_structure topic n = PList ?slides"
      by (simp add: fallback_structure_def)
    show "length ?slides = nat n"
      by simp
    show "py_getitem (?slides ! 0) ''design_type'' = Inr (PStr ''title'')"
      by (simp add: first fallback_first py_getitem_def)
    show "py_getitem (?slides ! 0) ''key_points''
        = Inr (PList [PStr ''Overview'', PStr ''Objectives'', PStr ''Key Topics''])"
      by (simp add: first fallback_first py_getitem_def)
    show "py_getitem (?slides ! (nat n - 1)) ''design_type'' = Inr (PStr ''conclusion'')"
      using assms by (simp add: last fallback_last py_getitem_def)
    show "py_getitem (?slides ! (nat n - 1)) ''key_points''
        = Inr (PList [PStr ''Summary'', PStr ''Key Takeaways'', PStr ''Next Steps''])"
      using assms by (simp add: last fallback_last py_getitem_def)
  next
    fix i assume "0 < i \<and> i < nat n - 1"
    then show "py_getitem (?slides ! i) ''design_type''
        = Inr (PStr (if odd i then ''content'' else ''image_focus''))"
      using interior by blast
  next
    fix i assume "0 < i \<and> i < nat n - 1"
    then show "py_getitem (?slides ! i) ''key_points''
        = Inr (PList [PStr ''Main concepts'', PStr ''Examples'', PStr ''Applications''])"
      using interior by blast
  next
    fix llm loads llm' loads' e e'
    assume "structure_try llm loads = Inl e \<and> structure_try llm' loads' = Inl e'"
    then show "create_slide_structure llm loads topic n = Inr (PList ?slides)"
      using pure by blast
  next
    fix llm :: "llm_call \<Rightarrow> error + pyval" and loads :: "string \<Rightarrow> error + pyval"
    fix llm' loads' e e'
    assume "structure_try llm loads = Inl e \<and> structure_try llm' loads' = Inl e'"
    then show "create_slide_structure llm' loads' topic n = Inr (PList ?slides)"
      using pure by blast
  qed
qed

theorem fallback_structure_shape_witness:
  "(2::int) \<le> 4 \<and>
   (\<exists>slides. fallback_structure ''Solar'' 4 = PList slides \<and> length slides = 4
      \<and> py_getitem (slides ! 0) ''design_type'' = Inr (PStr ''title'')
      \<and> py_getitem (slides ! 1) ''design_type'' = Inr (PStr ''content'')
      \<and> py_getitem (slides ! 2) ''design_type'' = Inr (PStr ''image_focus'')
      \<and> py_getitem (slides ! 3) ''design_type'' = Inr (PStr ''conclusion'')
      \<and> create_slide_structure (\<lambda>c. Inl ServiceError) (\<lambda>s. Inl ValueError) ''Solar'' 4
          = Inr (PList slides))"
proof -
  have n: "(2::int) \<le> 4" by simp
  have failing: "structure_try (\<lambda>c. Inl ServiceError) (\<lambda>s. Inl ValueError) = Inl ServiceError"
    by (simp add: structure_try_def bind_e_def)
  obtain slides where s:
    "fallback_structure ''Solar'' 4 = PList slides" "length slides = nat 4"
    "py_getitem (slides ! 0) ''design_type'' = Inr (PStr ''title'')"
    "py_getitem (slides ! (nat 4 - 1)) ''design_type'' = Inr (PStr ''conclusion'')"
    "\<forall>i. 0 < i \<and> i < nat 4 - 1 \<longrightarrow>
         py_getitem (slides ! i) ''design_type''
           = Inr (PStr (if odd i then ''content'' else ''image_focus''))
       \<and> py_getitem (slides ! i) ''key_points''
           = Inr (PList [PStr ''Main concepts'', PStr ''Examples'', PStr ''Applications''])"
    "\<forall>llm loads llm' loads' e e'.
         structure_try llm loads = Inl e \<and> structure_try llm' loads' = Inl e' \<longrightarrow>
         create_slide_structure llm loads ''Solar'' 4 = Inr (PList slides)
       \<and> create_slide_structure llm' loads' ''Solar'' 4 = Inr (PList slides)"
    using fallback_structure_shape [OF n, of "''Solar''"] by blast
  have "py_getitem (slides ! 1) ''design_type'' = Inr (PStr ''content'')"
    using s(5) [rule_format, of 1] by simp
  moreover have "py_getitem (slides ! 2) ''design_type'' = Inr (PStr ''image_focus'')"
    using s(5) [rule_format, of 2] by simp
  moreover have "py_getitem (slides ! 3) ''design_type'' = Inr (PStr ''conclusion'')"
    using s(4) by simp
  moreover have "create_slide_structure (\<lambda>c. Inl ServiceError) (\<lambda>s. Inl ValueError) ''Solar'' 4
      = Inr (PList slides)"
    using s(6) failing by blast
  ultimately show ?thesis
    using n s(1,2,3) by auto
qed

text \<open>
  C5. For every topic and slide count, every outcome of the model call and every parser, the
  method returns a value and raises nothing to its caller, and the value is the fallback
  structure in each of these cases: the model call raises; the model returns any content at
  all; the model returns a text without a fence marker that the parser rejects; the model
  returns a text that the parser reads as a value that is not a list; the model returns a text
  that the parser reads as a list in which some slide lacks one of the four required keys.
\<close>

theorem create_slide_structure_never_raises:
  "(\<exists>v. create_slide_structure llm loads topic n = Inr v)
 \<and> (\<forall>e. llm StructureCall = Inl e \<longrightarrow>
        create_slide_structure llm loads topic n = Inr (fallback_structure topic n))
 \<and> (\<forall>r. llm StructureCall = Inr r \<longrightarrow>
        create_slide_structure llm loads topic n = Inr (fallback_structure topic n))
 \<and> (\<forall>s e. llm StructureCall = Inr (PStr s) \<and> \<not> contains ''```'' s \<and> loads (strip s) = Inl e \<longrightarrow>
        create_slide_structure llm loads topic n = Inr (fallback_structure topic n))
 \<and> (\<forall>s v. llm StructureCall = Inr (PStr s) \<and> loads (strip s) = Inr v
          \<and> (\<forall>slides. v \<noteq> PList slides) \<longrightarrow>
        create_slide_structure llm loads topic n = Inr (fallback_structure topic n))
 \<and> (\<forall>s slides slide key. llm StructureCall = Inr (PStr s) \<and> loads (strip s) = Inr (PList slides)
          \<and> slide \<in> set slides
          \<and> key \<in> set [''slide_number'', ''title'', ''design_type'', ''key_points'']
          \<and> py_in key slide = Inr False \<longrightarrow>
        create_slide_structure llm loads topic n = Inr (fallback_structure topic n))"
  using create_slide_structure_fallback [of llm loads topic n] by blast

theorem create_slide_structure_never_raises_witness:
  \<open>create_slide_structure (\<lambda>c. Inl ServiceError) (\<lambda>s. Inl ValueError) ''Solar'' 3
     = Inr (fallback_structure ''Solar'' 3)
 \<and> \<not> contains ''```'' ''not json at all''
 \<and> create_slide_structure (\<lambda>c. Inr (PStr ''not json at all'')) (\<lambda>s. Inl ValueError) ''Solar'' 3
     = Inr (fallback_structure ''Solar'' 3)
 \<and> create_slide_structure (\<lambda>c. Inr (PStr ''{"title": "Solar"}''))
       (\<lambda>s. Inr (PDict [(''title'', PStr ''Solar'')])) ''Solar'' 3
     = Inr (fallback_structure ''Solar'' 3)
 \<and> py_in ''key_points'' (PDict [(''slide_number'', PInt 1), (''title'', PStr ''Solar''),
                                (''design_type'', PStr ''title'')]) = Inr False
 \<and> create_slide_structure
       (\<lambda>c. Inr (PStr ''[{"slide_number": 1, "title": "Solar", "design_type": "title"}]''))
       (\<lambda>s. Inr (PList [PDict [(''slide_number'', PInt 1), (''title'', PStr ''Solar''),
                                  (''design_type'', PStr ''title'')]])) ''Solar'' 3
     = Inr (fallback_structure ''Solar'' 3)\<close>
proof -
  let ?bad = \<open>PDict [(''slide_number'', PInt 1), (''title'', PStr ''Solar''),
                      (''design_type'', PStr ''title'')]\<close>
  have unfenced: \<open>\<not> contains ''```'' ''not json at all''\<close>
    by simp
  have lacks: \<open>py_in ''key_points'' ?bad = Inr False\<close>
    by (simp add: py_in_def)
  have raising: \<open>create_slide_structure (\<lambda>c. Inl ServiceError) (\<lambda>s. Inl ValueError) ''Solar'' 3
     = Inr (fallback_structure ''Solar'' 3)\<close>
    by (rule create_slide_structure_never_raises
          [THEN conjunct2, THEN conjunct1, rule_format, of _ ServiceError]) (rule refl)
  have invalid: \<open>create_slide_structure (\<lambda>c. Inr (PStr ''not json at all''))
       (\<lambda>s. Inl ValueError) ''Solar'' 3 = Inr (fallback_structure ''Solar'' 3)\<close>
    by (rule create_slide_structure_never_raises
          [THEN conjunct2, THEN conjunct2, THEN conjunct2, THEN conjunct1, rule_format,
           of _ \<open>''not json at all''\<close> _ ValueError])
       (intro conjI refl unfenced)
  have not_list: \<open>create_slide_structure (\<lambda>c. Inr (PStr ''{"title": "Solar"}''))
       (\<lambda>s. Inr (PDict [(''title'', PStr ''Solar'')])) ''Solar'' 3
     = Inr (fallback_structure ''Solar'' 3)\<close>
    by (rule create_slide_structure_never_raises
          [THEN conjunct2, THEN conjunct2, THEN conjunct2, THEN conjunct2, THEN conjunct1,
           rule_format, of _ \<open>''{"title": "Solar"}''\<close> _ \<open>PDict [(''title'', PStr ''Solar'')]\<close>])
       (intro conjI refl allI pyval.distinct)
  have incomplete: \<open>create_slide_structure
       (\<lambda>c. Inr (PStr ''[{"slide_number": 1, "title": "Solar", "design_type": "title"}]''))
       (\<lambda>s. Inr (PList [?bad])) ''Solar'' 3
     = Inr (fallback_structure ''Solar'' 3)\<close>
    by (rule create_slide_structure_never_raises
          [THEN conjunct2, THEN conjunct2, THEN conjunct2, THEN conjunct2, THEN conjunct2,
           rule_format,
           of _ \<open>''[{"slide_number": 1, "title": "Solar", "design_type": "title"}]''\<close>
              _ \<open>[?bad]\<close> ?bad \<open>''key_points''\<close>])
       (intro conjI refl lacks, simp_all)
  from raising unfenced invalid not_list lacks incomplete show ?thesis
    by (intro conjI)
qed

text \<open>
  C10. For every outcome of the model call and every parser, the extraction of lines 402 and
  403 raises for every text it is given, the \<^verbatim>\<open>try\<close> never completes, and the method returns
  the fallback structure: line 426 never produces the result.
\<close>

theorem create_slide_structure_always_fallback:
  "(\<exists>e. extract_json stext = Inl e)
 \<and> (\<exists>e. structure_try llm loads = Inl e)
 \<and> create_slide_structure llm loads topic n = Inr (fallback_structure topic n)"
  using extract_json_raises structure_try_raises create_slide_structure_fallback by blast

theorem create_slide_structure_always_fallback_witness:
  "create_slide_structure (\<lambda>c. Inr (PStr ''[]'')) (\<lambda>s. Inr (PList [])) ''Solar'' 3
     = Inr (fallback_structure ''Solar'' 3)"
  using create_slide_structure_always_fallback
    [of "PStr ''[]''" "\<lambda>c. Inr (PStr ''[]'')" "\<lambda>s. Inr (PList [])" "''Solar''" 3]
  by simp

section \<open>Properties of the image acquirer\<close>

lemma str_int_2: "str_int 2 = ''2''"
  by code_simp

lemma generate_image_returns: "\<exists>r. fst (generate_image env files prompt k) = Inr r"
  by (cases "generate_image_try env files prompt k" rule: prod.exhaust [case_names Pair])
     (auto simp: generate_image_def split: sum.splits)

text \<open>
  C7. For every prompt and slide number the method returns a value and raises nothing. Without
  a client it returns \<^verbatim>\<open>None\<close>; when the service raises or yields no image it returns
  \<^verbatim>\<open>None\<close>; in each of these cases the file system is left as it was.
\<close>

theorem generate_image_never_raises:
  "(\<exists>r. fst (generate_image env files prompt k) = Inr r)
 \<and> (client env = None \<longrightarrow> generate_image env files prompt k = (Inr None, files))
 \<and> (\<forall>svc. client env = Some svc
        \<and> svc k (prompt @ '', high quality, professional, clean design, presentation style, no text'')
            = Inr None
      \<longrightarrow> generate_image env files prompt k = (Inr None, files))
 \<and> (\<forall>svc e. client env = Some svc
        \<and> svc k (prompt @ '', high quality, professional, clean design, presentation style, no text'')
            = Inl e
      \<longrightarrow> generate_image env files prompt k = (Inr None, files))"
proof (intro conjI allI impI)
  show "\<exists>r. fst (generate_image env files prompt k) = Inr r"
    by (rule generate_image_returns)
next
  assume "client env = None"
  then show "generate_image env files prompt k = (Inr None, files)"
    by (simp add: generate_image_def generate_image_try_def)
next
  fix svc
  assume "client env = Some svc
    \<and> svc k (prompt @ '', high quality, professional, clean design, presentation style, no text'')
        = Inr None"
  then show "generate_image env files prompt k = (Inr None, files)"
    by (simp add: generate_image_def generate_image_try_def)
next
  fix svc e
  assume "client env = Some svc
    \<and> svc k (prompt @ '', high quality, professional, clean design, presentation style, no text'')
        = Inl e"
  then show "generate_image env files prompt k = (Inr None, files)"
    by (simp add: generate_image_def generate_image_try_def)
qed

theorem generate_image_never_raises_witness:
  "client (failing_world\<lparr>client := None\<rparr>) = None
 \<and> generate_image (failing_world\<lparr>client := None\<rparr>) Map.empty ''a wind farm'' 2
      = (Inr None, Map.empty)
 \<and> client (failing_world\<lparr>client := Some (\<lambda>k p. Inr None)\<rparr>) = Some (\<lambda>k p. Inr None)
 \<and> generate_image (failing_world\<lparr>client := Some (\<lambda>k p. Inr None)\<rparr>) Map.empty ''a wind farm'' 2
      = (Inr None, Map.empty)"
  using generate_image_never_raises
      [of "failing_world\<lparr>client := None\<rparr>" Map.empty "''a wind farm''" 2]
    generate_image_never_raises
      [of "failing_world\<lparr>client := Some (\<lambda>k p. Inr None)\<rparr>" Map.empty "''a wind farm''" 2]
  by simp

text \<open>
  C4, as the claim states it, fails: the service yields an image whose file is written with
  zero bytes and does not decode; the method returns the reference of that file.
\<close>

theorem generate_image_zero_byte_counterexample:
  "fst (generate_image
          (failing_world\<lparr>client := Some (\<lambda>k p. Inr (Some (PIL_Image (Inr (Some (0, False))))))\<rparr>)
          Map.empty ''a wind farm'' 2)
     = Inr (Some ''images/slide_2_0a1b2c3d.png'')
 \<and> snd (generate_image
          (failing_world\<lparr>client := Some (\<lambda>k p. Inr (Some (PIL_Image (Inr (Some (0, False))))))\<rparr>)
          Map.empty ''a wind farm'' 2) ''static/images/slide_2_0a1b2c3d.png''
     = Some \<lparr>fsize = 0, decodes = False, deck = None\<rparr>"
  by (simp add: generate_image_def generate_image_try_def failing_world_def str_int_2
        Let_def)

text \<open>
  C4, amended. Whenever the method returns a reference, the file it refers to exists under
  \<^verbatim>\<open>static/\<close>. The byte length and the decoding are not checked here but by
  \<^verbatim>\<open>add_image_to_slide\<close>: for a file of zero bytes or one that does not decode, it returns
  \<^verbatim>\<open>False\<close> and adds nothing to the slide.
\<close>

theorem generate_image_reference_exists:
  assumes "generate_image env files prompt k = (Inr (Some ref), files')"
  shows "\<exists>f. files' (''static/'' @ ref) = Some f
     \<and> (fsize f = 0 \<or> \<not> decodes f \<longrightarrow>
          add_image_to_slide env' files' i slide (Some ref) g = (Inr False, slide))"
proof -
  let ?name = "''slide_'' @ str_int k @ ''_'' @ take 8 (image_uuid env k) @ ''.png''"
  from assms have ref: "ref = ''images/'' @ ?name" and ex: "files' (''static/images/'' @ ?name) \<noteq> None"
    by (auto simp: generate_image_def generate_image_try_def Let_def
          split: option.splits sum.splits if_splits prod.splits)
  then obtain f where f: "files' (''static/'' @ ref) = Some f"
    by auto
  have "add_image_to_slide env' files' i slide (Some ref) g = (Inr False, slide)"
    if "fsize f = 0 \<or> \<not> decodes f"
    using that f ref by (auto simp: add_image_to_slide_def add_image_try_def)
  with f show ?thesis by blast
qed

theorem generate_image_reference_exists_witness:
  "generate_image
     (failing_world\<lparr>client := Some (\<lambda>k p. Inr (Some (PIL_Image (Inr (Some (0, False))))))\<rparr>)
     Map.empty ''a wind farm'' 2
   = (Inr (Some ''images/slide_2_0a1b2c3d.png''),
      [''static/images/slide_2_0a1b2c3d.png'' \<mapsto> \<lparr>fsize = 0, decodes = False, deck = None\<rparr>])
 \<and> add_image_to_slide failing_world
      [''static/images/slide_2_0a1b2c3d.png'' \<mapsto> \<lparr>fsize = 0, decodes = False, deck = None\<rparr>]
      1 [] (Some ''images/slide_2_0a1b2c3d.png'') (20, 20, 120, 60) = (Inr False, [])"
proof -
  have run: "generate_image
     (failing_world\<lparr>client := Some (\<lambda>k p. Inr (Some (PIL_Image (Inr (Some (0, False))))))\<rparr>)
     Map.empty ''a wind farm'' 2
   = (Inr (Some ''images/slide_2_0a1b2c3d.png''),
      [''static/images/slide_2_0a1b2c3d.png'' \<mapsto> \<lparr>fsize = 0, decodes = False, deck = None\<rparr>])"
    by (simp add: generate_image_def generate_image_try_def failing_world_def str_int_2
          Let_def)
  show ?thesis
    using run generate_image_reference_exists [OF run, of failing_world 1 "[]" "(20, 20, 120, 60)"]
    by simp
qed

section \<open>Properties of the layout routines\<close>

lemma add_optional_image_empty:
  "\<not> path_truthy (image_path sd) \<Longrightarrow> add_optional_image env files i slide sd g = slide"
  by (simp add: add_optional_image_def)

lemma add_text_block_ok:
  "\<not> pptx_raises env i BodyBox \<Longrightarrow> \<not> pptx_raises env i BodyText \<Longrightarrow>
   \<not> pptx_raises env i BodyFormat \<Longrightarrow>
   add_text_block env i slide g s wrap pf = (Inr (), slide @ [Textbox g s wrap (Some pf)])"
  by (simp add: add_text_block_def)

text \<open>
  C8. A slide record whose image reference is empty (\<^verbatim>\<open>None\<close> or the empty string), built
  while the text calls of the presentation library do not raise: each of the five routines
  completes and adds its text box, the conclusion routine its decorative shape as well, and no
  picture.
\<close>

theorem layout_routines_tolerate_missing_image:
  assumes "\<not> path_truthy (image_path sd)"
    and "\<not> pptx_raises env i BodyBox"
    and "\<not> pptx_raises env i BodyText"
    and "\<not> pptx_raises env i BodyFormat"
  shows "add_title_slide_content env files i slide sd =
           (Inr (), slide @ [Textbox (20, 25, 120, 10) (truncated 100 (content sd)) False
                               (Some (ParaFormat 24 False False (89, 89, 89) True False))])
       \<and> add_content_slide env files i slide sd =
           (Inr (), slide @ [Textbox (5, 20, 70, 60) (content sd) True
                               (Some (ParaFormat 16 False False (51, 51, 51) False True))])
       \<and> add_image_focus_slide env files i slide sd =
           (Inr (), slide @ [Textbox (10, 82, 140, 8) (truncated 150 (content sd)) False
                               (Some (ParaFormat 14 False True (102, 102, 102) True False))])
       \<and> add_conclusion_slide env files i slide sd =
           (Inr (), slide @ [Textbox (20, 25, 120, 40) (content sd) False
                               (Some (ParaFormat 20 False False (31, 78, 121) True True))]
                     @ (if pptx_raises env i AddShape then []
                        else [AutoShape (70, 70, 20, 5)
                                (if pptx_raises env i FillShape then None
                                 else Some (31, 78, 121))]))
       \<and> add_default_slide env files i slide sd =
           (Inr (), slide @ [Textbox (5, 20, 70, 60) (content sd) True
                               (Some (ParaFormat 16 False False (51, 51, 51) False True))])"
proof (intro conjI)
  show "add_title_slide_content env files i slide sd =
           (Inr (), slide @ [Textbox (20, 25, 120, 10) (truncated 100 (content sd)) False
                               (Some (ParaFormat 24 False False (89, 89, 89) True False))])"
    using assms by (simp add: add_title_slide_content_def add_text_block_ok add_optional_image_empty)
  show content_slide: "add_content_slide env files i slide sd =
           (Inr (), slide @ [Textbox (5, 20, 70, 60) (content sd) True
                               (Some (ParaFormat 16 False False (51, 51, 51) False True))])"
    using assms by (simp add: add_content_slide_def add_text_block_ok add_optional_image_empty)
  show "add_image_focus_slide env files i slide sd =
           (Inr (), slide @ [Textbox (10, 82, 140, 8) (truncated 150 (content sd)) False
                               (Some (ParaFormat 14 False True (102, 102, 102) True False))])"
    using assms by (simp add: add_image_focus_slide_def add_text_block_ok add_optional_image_empty)
  show "add_conclusion_slide env files i slide sd =
           (Inr (), slide @ [Textbox (20, 25, 120, 40) (content sd) False
                               (Some (ParaFormat 20 False False (31, 78, 121) True True))]
                     @ (if pptx_raises env i AddShape then []
                        else [AutoShape (70, 70, 20, 5)
                                (if pptx_raises env i FillShape then None
                                 else Some (31, 78, 121))]))"
    using assms
    by (simp add: add_conclusion_slide_def add_text_block_ok add_optional_image_empty
          add_decorative_shape_def)
  show "add_default_slide env files i slide sd =
           (Inr (), slide @ [Textbox (5, 20, 70, 60) (content sd) True
                               (Some (ParaFormat 16 False False (51, 51, 51) False True))])"
    using content_slide by (simp add: add_default_slide_def)
qed

theorem layout_routines_tolerate_missing_image_witness:
  "\<not> path_truthy (image_path sample_slide)
 \<and> \<not> pptx_raises failing_world 0 BodyBox
 \<and> add_title_slide_content failing_world Map.empty 0 [title_box ''Wind''] sample_slide =
      (Inr (), [title_box ''Wind'',
                Textbox (20, 25, 120, 10) ''Wind turns.'' False
                  (Some (ParaFormat 24 False False (89, 89, 89) True False))])
 \<and> add_conclusion_slide failing_world Map.empty 0 [title_box ''Wind''] sample_slide =
      (Inr (), [title_box ''Wind'',
                Textbox (20, 25, 120, 40) ''Wind turns.'' False
                  (Some (ParaFormat 20 False False (31, 78, 121) True True)),
                AutoShape (70, 70, 20, 5) (Some (31, 78, 121))])"
proof -
  have h: "\<not> path_truthy (image_path sample_slide)"
    "\<not> pptx_raises failing_world 0 BodyBox"
    "\<not> pptx_raises failing_world 0 BodyText"
    "\<not> pptx_raises failing_world 0 BodyFormat"
    by (simp_all add: sample_slide_def path_truthy_def failing_world_def)
  have c: "content sample_slide = ''Wind turns.''"
    by (simp add: sample_slide_def)
  show ?thesis
    using h layout_routines_tolerate_missing_image [OF h, of Map.empty "[title_box ''Wind'']"]
    by (simp add: c truncated_def failing_world_def)
qed

section \<open>Properties of the document assembler\<close>

text \<open>A routine only appends to the slide it is given.\<close>

lemma add_image_to_slide_extends:
  "\<exists>rest. snd (add_image_to_slide env files i slide p g) = slide @ rest"
  by (auto simp: add_image_to_slide_def add_image_try_def Let_def split: option.splits)

lemma add_optional_image_extends:
  "\<exists>rest. add_optional_image env files i slide sd g = slide @ rest"
  using add_image_to_slide_extends [of env files i slide "image_path sd" g]
  by (auto simp: add_optional_image_def)

lemma add_text_block_extends:
  "\<exists>rest. snd (add_text_block env i slide g s wrap pf) = slide @ rest"
  by (simp add: add_text_block_def)

lemma add_decorative_shape_extends:
  "\<exists>rest. add_decorative_shape env i slide = slide @ rest"
  by (simp add: add_decorative_shape_def)

lemma text_then_image_extends:
  "\<exists>rest. snd (case add_text_block env i slide g s wrap pf of
               (Inl e, slide') \<Rightarrow> (Inl e, slide')
             | (Inr u, slide') \<Rightarrow> (Inr (), add_optional_image env files i slide' sd g')) = slide @ rest"
proof (cases "add_text_block env i slide g s wrap pf")
  case (Pair r slide')
  obtain r1 where r1: "slide' = slide @ r1"
    using add_text_block_extends [of env i slide g s wrap pf] Pair by auto
  obtain r2 where "add_optional_image env files i slide' sd g' = slide' @ r2"
    using add_optional_image_extends by blast
  with Pair r1 show ?thesis
    by (cases r) auto
qed

lemma add_title_slide_content_extends:
  "\<exists>rest. snd (add_title_slide_content env files i slide sd) = slide @ rest"
  unfolding add_title_slide_content_def by (rule text_then_image_extends)

lemma add_content_slide_extends:
  "\<exists>rest. snd (add_content_slide env files i slide sd) = slide @ rest"
  unfolding add_content_slide_def by (rule text_then_image_extends)

lemma add_image_focus_slide_extends:
  "\<exists>rest. snd (add_image_focus_slide env files i slide sd) = slide @ rest"
proof -
  obtain r1 where r1: "add_optional_image env files i slide sd (20, 20, 120, 60) = slide @ r1"
    using add_optional_image_extends by blast
  obtain r2 where
    "snd (add_text_block env i (slide @ r1) (10, 82, 140, 8) (truncated 150 (content sd)) False
            (ParaFormat 14 False True (102, 102, 102) True False)) = (slide @ r1) @ r2"
    using add_text_block_extends by blast
  with r1 show ?thesis
    by (simp add: add_image_focus_slide_def)
qed

lemma add_conclusion_slide_extends:
  "\<exists>rest. snd (add_conclusion_slide env files i slide sd) = slide @ rest"
proof (cases "add_text_block env i slide (20, 25, 120, 40) (content sd) False
                (ParaFormat 20 False False (31, 78, 121) True True)")
  case (Pair r slide')
  obtain r1 where r1: "slide' = slide @ r1"
    using add_text_block_extends [of env i slide "(20, 25, 120, 40)" "content sd" False
        "ParaFormat 20 False False (31, 78, 121) True True"] Pair by auto
  obtain r2 where r2: "add_optional_image env files i slide' sd (60, 65, 40, 20) = slide' @ r2"
    using add_optional_image_extends by blast
  obtain r3 where "add_decorative_shape env i (slide' @ r2) = (slide' @ r2) @ r3"
    using add_decorative_shape_extends by blast
  with Pair r1 r2 show ?thesis
    by (cases r) (auto simp: add_conclusion_slide_def)
qed

lemma render_layout_extends:
  "\<exists>rest. snd (render_layout env files i slide sd) = slide @ rest"
  using add_title_slide_content_extends add_content_slide_extends
    add_image_focus_slide_extends add_conclusion_slide_extends
  by (simp add: render_layout_def add_default_slide_def)

lemma render_layout_guarded_snd:
  "render_layout_guarded env files i slide sd = snd (render_layout env files i slide sd)"
  by (cases "render_layout env files i slide sd" rule: prod.exhaust [case_names Pair])
     (auto simp: render_layout_guarded_def split: sum.splits)

text \<open>A routine that raises at its first library call on a slide without an image adds nothing.\<close>

lemma render_layout_first_call_raises:
  assumes "pptx_raises env i BodyBox" and "\<not> path_truthy (image_path sd)"
  shows "render_layout env files i slide sd = (Inl PptxError, slide)"
  using assms
  by (simp add: render_layout_def add_default_slide_def add_title_slide_content_def
        add_content_slide_def add_image_focus_slide_def add_conclusion_slide_def
        add_text_block_def add_optional_image_def)

text \<open>The loop over the slides, when every title can be rendered.\<close>

lemma build_slides_all:
  assumes "\<forall>j < length sds. \<not> pptx_raises env (i + j) TitleRender \<and> (\<exists>s. title (sds ! j) = PStr s)"
  shows "\<exists>prs. build_slides env files i sds = Inr prs \<and> length prs = length sds
     \<and> (\<forall>j < length sds. \<exists>s. title (sds ! j) = PStr s
          \<and> prs ! j = snd (render_layout env files (i + j) [title_box s] (sds ! j)))"
  using assms
proof (induction sds arbitrary: i)
  case Nil
  then show ?case by simp
next
  case (Cons sd sds)
  from Cons.prems [rule_format, of 0] obtain s where
    s: "\<not> pptx_raises env i TitleRender" "title sd = PStr s"
    by auto
  have "\<forall>j < length sds. \<not> pptx_raises env (Suc i + j) TitleRender
          \<and> (\<exists>s. title (sds ! j) = PStr s)"
  proof (intro allI impI)
    fix j assume "j < length sds"
    then show "\<not> pptx_raises env (Suc i + j) TitleRender \<and> (\<exists>s. title (sds ! j) = PStr s)"
      using Cons.prems [rule_format, of "Suc j"] by simp
  qed
  from Cons.IH [OF this] obtain rest where rest:
    "build_slides env files (Suc i) sds = Inr rest" "length rest = length sds"
    "\<forall>j < length sds. \<exists>s. title (sds ! j) = PStr s
          \<and> rest ! j = snd (render_layout env files (Suc i + j) [title_box s] (sds ! j))"
    by blast
  let ?first = "snd (render_layout env files i [title_box s] sd)"
  have run: "build_slides env files i (sd # sds) = Inr (?first # rest)"
    using s rest(1) by (simp add: render_title_def bind_e_def render_layout_guarded_snd)
  have "\<exists>s'. title ((sd # sds) ! j) = PStr s'
          \<and> (?first # rest) ! j = snd (render_layout env files (i + j) [title_box s'] ((sd # sds) ! j))"
    if "j < length (sd # sds)" for j
  proof (cases j)
    case 0
    with s show ?thesis by simp
  next
    case (Suc j')
    with that rest(3) [rule_format, of j'] show ?thesis by simp
  qed
  with run rest(2) show ?case by simp
qed

text \<open>
  C6, as the claim states it, fails. Two slides; the second has the design type
  \<^verbatim>\<open>image_focus\<close> and a valid image, and the library raises when its caption box is added.
  The routine raises, the presentation is saved, and in it the second slide holds its title and
  the picture: it is not a title-only slide.
\<close>

theorem failed_slide_keeps_picture_counterexample:
  "fst (render_layout (failing_world\<lparr>pptx_raises := (\<lambda>i c. i = 1 \<and> c = BodyBox)\<rparr>)
          [''static/images/a.png'' \<mapsto> \<lparr>fsize = 2048, decodes = True, deck = None\<rparr>]
          1 [title_box ''Turbines'']
          (sample_slide\<lparr>slide_number := 2, title := PStr ''Turbines'',
             design_type := PStr ''image_focus'', image_path := Some ''images/a.png''\<rparr>))
     = Inl PptxError
 \<and> fst (create_powerpoint (failing_world\<lparr>pptx_raises := (\<lambda>i c. i = 1 \<and> c = BodyBox)\<rparr>)
          [''static/images/a.png'' \<mapsto> \<lparr>fsize = 2048, decodes = True, deck = None\<rparr>]
          [sample_slide,
           sample_slide\<lparr>slide_number := 2, title := PStr ''Turbines'',
             design_type := PStr ''image_focus'', image_path := Some ''images/a.png''\<rparr>]
          ''Wind'')
     = Inr (Some ''presentations/Wind_f9e8d7c6.pptx'')
 \<and> snd (create_powerpoint (failing_world\<lparr>pptx_raises := (\<lambda>i c. i = 1 \<and> c = BodyBox)\<rparr>)
          [''static/images/a.png'' \<mapsto> \<lparr>fsize = 2048, decodes = True, deck = None\<rparr>]
          [sample_slide,
           sample_slide\<lparr>slide_number := 2, title := PStr ''Turbines'',
             design_type := PStr ''image_focus'', image_path := Some ''images/a.png''\<rparr>]
          ''Wind'') ''static/presentations/Wind_f9e8d7c6.pptx''
     = Some \<lparr>fsize = 30000, decodes = False,
             deck = Some [[title_box ''Wind'',
                           Textbox (20, 25, 120, 10) ''Wind turns.'' False
                             (Some (ParaFormat 24 False False (89, 89, 89) True False))],
                          [title_box ''Turbines'',
                           Picture (20, 20, 120, 60) ''static/images/a.png'']]\<rparr>"
  by (simp add: create_powerpoint_def create_powerpoint_try_def render_title_def bind_e_def
        render_layout_guarded_def render_layout_def add_title_slide_content_def
        add_image_focus_slide_def add_text_block_def add_optional_image_def
        add_image_to_slide_def add_image_try_def path_truthy_def truncated_def
        ppt_filename_def safe_topic_def failing_world_def sample_slide_def Let_def)

text \<open>
  C6, amended. When every title can be rendered and the presentation can be saved, the method
  returns the reference of the saved presentation, whatever the layout routines do. The
  presentation has one slide for each record, in order. Each slide is what its own layout
  routine left of it, whether that routine or the routine of any other slide raised or not: it
  begins with the title box, followed by the elements the routine added before it completed or
  raised. It is the title alone when the routine raises at its first library call on a slide
  without an image.
\<close>

theorem create_powerpoint_isolates_slide_failures:
  assumes titles: "\<forall>j < length sds. \<not> pptx_raises env j TitleRender \<and> (\<exists>s. title (sds ! j) = PStr s)"
    and dirs: "\<not> makedirs_raises env ''static/presentations''"
    and saved: "prs_save env (''static/presentations/'' @ ppt_filename env topic) = Inr (Some n)"
  shows "\<exists>prs.
      create_powerpoint env files sds topic =
        (Inr (Some (''presentations/'' @ ppt_filename env topic)),
         files(''static/presentations/'' @ ppt_filename env topic \<mapsto>
                 \<lparr>fsize = n, decodes = False, deck = Some prs\<rparr>))
    \<and> length prs = length sds
    \<and> (\<forall>j < length sds. \<exists>s.
          title (sds ! j) = PStr s
        \<and> prs ! j = snd (render_layout env files j [title_box s] (sds ! j))
        \<and> (\<exists>added. prs ! j = title_box s # added)
        \<and> (pptx_raises env j BodyBox \<and> \<not> path_truthy (image_path (sds ! j)) \<longrightarrow>
             fst (render_layout env files j [title_box s] (sds ! j)) = Inl PptxError
           \<and> prs ! j = [title_box s]))"
proof -
  from titles have "\<forall>j < length sds. \<not> pptx_raises env (0 + j) TitleRender
      \<and> (\<exists>s. title (sds ! j) = PStr s)"
    by simp
  from build_slides_all [OF this, of files] obtain prs where prs:
    "build_slides env files 0 sds = Inr prs" "length prs = length sds"
    "\<forall>j < length sds. \<exists>s. title (sds ! j) = PStr s
          \<and> prs ! j = snd (render_layout env files (0 + j) [title_box s] (sds ! j))"
    by blast
  have run: "create_powerpoint env files sds topic =
        (Inr (Some (''presentations/'' @ ppt_filename env topic)),
         files(''static/presentations/'' @ ppt_filename env topic \<mapsto>
                 \<lparr>fsize = n, decodes = False, deck = Some prs\<rparr>))"
    using prs(1) dirs saved
    by (simp add: create_powerpoint_def create_powerpoint_try_def Let_def)
  have each: "\<exists>s. title (sds ! j) = PStr s
        \<and> prs ! j = snd (render_layout env files j [title_box s] (sds ! j))
        \<and> (\<exists>added. prs ! j = title_box s # added)
        \<and> (pptx_raises env j BodyBox \<and> \<not> path_truthy (image_path (sds ! j)) \<longrightarrow>
             fst (render_layout env files j [title_box s] (sds ! j)) = Inl PptxError
           \<and> prs ! j = [title_box s])"
    if "j < length sds" for j
  proof -
    from prs(3) that obtain s where s: "title (sds ! j) = PStr s"
      "prs ! j = snd (render_layout env files j [title_box s] (sds ! j))"
      by auto
    obtain added where "snd (render_layout env files j [title_box s] (sds ! j)) = [title_box s] @ added"
      using render_layout_extends by blast
    with s have starts: "prs ! j = title_box s # added"
      by simp
    have "fst (render_layout env files j [title_box s] (sds ! j)) = Inl PptxError
           \<and> prs ! j = [title_box s]"
      if "pptx_raises env j BodyBox \<and> \<not> path_truthy (image_path (sds ! j))"
      using that s(2) render_layout_first_call_raises [of env j "sds ! j" files "[title_box s]"]
      by simp
    with s starts show ?thesis by blast
  qed
  from run prs(2) each show ?thesis by blast
qed

theorem create_powerpoint_isolates_slide_failures_witness:
  "\<not> pptx_raises (failing_world\<lparr>pptx_raises := (\<lambda>i c. i = 0 \<and> c = BodyBox)\<rparr>) 0 TitleRender
 \<and> \<not> pptx_raises (failing_world\<lparr>pptx_raises := (\<lambda>i c. i = 0 \<and> c = BodyBox)\<rparr>) 1 TitleRender
 \<and> pptx_raises (failing_world\<lparr>pptx_raises := (\<lambda>i c. i = 0 \<and> c = BodyBox)\<rparr>) 0 BodyBox
 \<and> (\<exists>prs.
      create_powerpoint (failing_world\<lparr>pptx_raises := (\<lambda>i c. i = 0 \<and> c = BodyBox)\<rparr>) Map.empty
          [sample_slide\<lparr>design_type := PStr ''content''\<rparr>, sample_slide] ''Wind'' =
        (Inr (Some ''presentations/Wind_f9e8d7c6.pptx''),
         [''static/presentations/Wind_f9e8d7c6.pptx'' \<mapsto>
                 \<lparr>fsize = 30000, decodes = False, deck = Some prs\<rparr>])
    \<and> prs ! 0 = [title_box ''Wind'']
    \<and> prs ! 1 = [title_box ''Wind'',
                 Textbox (20, 25, 120, 10) ''Wind turns.'' False
                   (Some (ParaFormat 24 False False (89, 89, 89) True False))])"
proof -
  let ?env = "failing_world\<lparr>pptx_raises := (\<lambda>i c. i = 0 \<and> c = BodyBox)\<rparr>"
  let ?sds = "[sample_slide\<lparr>design_type := PStr ''content''\<rparr>, sample_slide]"
  have titles: "\<forall>j < length ?sds. \<not> pptx_raises ?env j TitleRender
      \<and> (\<exists>s. title (?sds ! j) = PStr s)"
    by (simp add: sample_slide_def less_Suc_eq)
  have dirs: "\<not> makedirs_raises ?env ''static/presentations''"
    by (simp add: failing_world_def)
  have name: "ppt_filename ?env ''Wind'' = ''Wind_f9e8d7c6.pptx''"
    by (simp add: ppt_filename_def safe_topic_def failing_world_def)
  have saved: "prs_save ?env (''static/presentations/'' @ ppt_filename ?env ''Wind'') = Inr (Some 30000)"
    by (simp add: failing_world_def)
  from create_powerpoint_isolates_slide_failures [OF titles dirs saved, of Map.empty]
  obtain prs where prs:
    "create_powerpoint ?env Map.empty ?sds ''Wind'' =
        (Inr (Some (''presentations/'' @ ppt_filename ?env ''Wind'')),
         [''static/presentations/'' @ ppt_filename ?env ''Wind'' \<mapsto>
                 \<lparr>fsize = 30000, decodes = False, deck = Some prs\<rparr>])"
    "\<forall>j < length ?sds. \<exists>s.
          title (?sds ! j) = PStr s
        \<and> prs ! j = snd (render_layout ?env Map.empty j [title_box s] (?sds ! j))
        \<and> (\<exists>added. prs ! j = title_box s # added)
        \<and> (pptx_raises ?env j BodyBox \<and> \<not> path_truthy (image_path (?sds ! j)) \<longrightarrow>
             fst (render_layout ?env Map.empty j [title_box s] (?sds ! j)) = Inl PptxError
           \<and> prs ! j = [title_box s])"
    by blast
  from prs(2) [rule_format, of 0] have p0: "prs ! 0 = [title_box ''Wind'']"
    by (auto simp: sample_slide_def path_truthy_def)
  from prs(2) [rule_format, of 1]
  have "prs ! 1 = snd (render_layout ?env Map.empty 1 [title_box ''Wind''] sample_slide)"
    by (auto simp: sample_slide_def)
  then have p1: "prs ! 1 = [title_box ''Wind'',
                 Textbox (20, 25, 120, 10) ''Wind turns.'' False
                   (Some (ParaFormat 24 False False (89, 89, 89) True False))]"
    by (simp add: render_layout_def add_title_slide_content_def add_text_block_def
          add_optional_image_def path_truthy_def truncated_def sample_slide_def)
  from prs(1) name p0 p1 show ?thesis
    by (intro conjI exI [of _ prs]) simp_all
qed

text \<open>
  C9. When every title can be rendered, the assembler builds one slide for each record, in
  order, and the slide of each record is the one left by exactly the routine that its design
  type selects, applied to the slide holding the title box: the title routine for
  \<^verbatim>\<open>title\<close>, the content routine for \<^verbatim>\<open>content\<close>, the image routine for
  \<^verbatim>\<open>image_focus\<close>, the conclusion routine for \<^verbatim>\<open>conclusion\<close>, and for every other value the
  default routine, which gives what the content routine gives. When moreover the presentation
  can be saved, these slides are the saved presentation. The default routine is the content
  routine.
\<close>

theorem assembler_dispatches_on_design_type:
  assumes "\<forall>j < length sds. \<not> pptx_raises env j TitleRender \<and> (\<exists>s. title (sds ! j) = PStr s)"
  shows "(\<exists>prs.
      build_slides env files 0 sds = Inr prs
    \<and> length prs = length sds
    \<and> (\<forall>j < length sds. \<exists>s.
          title (sds ! j) = PStr s
        \<and> (design_type (sds ! j) = PStr ''title'' \<longrightarrow>
             prs ! j = snd (add_title_slide_content env files j [title_box s] (sds ! j)))
        \<and> (design_type (sds ! j) = PStr ''content'' \<longrightarrow>
             prs ! j = snd (add_content_slide env files j [title_box s] (sds ! j)))
        \<and> (design_type (sds ! j) = PStr ''image_focus'' \<longrightarrow>
             prs ! j = snd (add_image_focus_slide env files j [title_box s] (sds ! j)))
        \<and> (design_type (sds ! j) = PStr ''conclusion'' \<longrightarrow>
             prs ! j = snd (add_conclusion_slide env files j [title_box s] (sds ! j)))
        \<and> (design_type (sds ! j)
               \<notin> {PStr ''title'', PStr ''content'', PStr ''image_focus'', PStr ''conclusion''} \<longrightarrow>
             prs ! j = snd (add_default_slide env files j [title_box s] (sds ! j))
           \<and> prs ! j = snd (add_content_slide env files j [title_box s] (sds ! j))))
    \<and> (\<not> makedirs_raises env ''static/presentations''
        \<and> prs_save env (''static/presentations/'' @ ppt_filename env topic) = Inr (Some n) \<longrightarrow>
         create_powerpoint env files sds topic =
           (Inr (Some (''presentations/'' @ ppt_filename env topic)),
            files(''static/presentations/'' @ ppt_filename env topic \<mapsto>
                    \<lparr>fsize = n, decodes = False, deck = Some prs\<rparr>))))
   \<and> add_default_slide = add_content_slide"
proof -
  have same: "add_default_slide = add_content_slide"
    by (intro ext) (simp add: add_default_slide_def)
  from assms have "\<forall>j < length sds. \<not> pptx_raises env (0 + j) TitleRender
      \<and> (\<exists>s. title (sds ! j) = PStr s)"
    by simp
  from build_slides_all [OF this, of files] obtain prs where prs:
    "build_slides env files 0 sds = Inr prs" "length prs = length sds"
    "\<forall>j < length sds. \<exists>s. title (sds ! j) = PStr s
          \<and> prs ! j = snd (render_layout env files (0 + j) [title_box s] (sds ! j))"
    by blast
  have each: "\<exists>s.
          title (sds ! j) = PStr s
        \<and> (design_type (sds ! j) = PStr ''title'' \<longrightarrow>
             prs ! j = snd (add_title_slide_content env files j [title_box s] (sds ! j)))
        \<and> (design_type (sds ! j) = PStr ''content'' \<longrightarrow>
             prs ! j = snd (add_content_slide env files j [title_box s] (sds ! j)))
        \<and> (design_type (sds ! j) = PStr ''image_focus'' \<longrightarrow>
             prs ! j = snd (add_image_focus_slide env files j [title_box s] (sds ! j)))
        \<and> (design_type (sds ! j) = PStr ''conclusion'' \<longrightarrow>
             prs ! j = snd (add_conclusion_slide env files j [title_box s] (sds ! j)))
        \<and> (design_type (sds ! j)
               \<notin> {PStr ''title'', PStr ''content'', PStr ''image_focus'', PStr ''conclusion''} \<longrightarrow>
             prs ! j = snd (add_default_slide env files j [title_box s] (sds ! j))
           \<and> prs ! j = snd (add_content_slide env files j [title_box s] (sds ! j)))"
    if "j < length sds" for j
  proof -
    from prs(3) that obtain s where s: "title (sds ! j) = PStr s"
      "prs ! j = snd (render_layout env files j [title_box s] (sds ! j))"
      by auto
    show ?thesis
      by (intro exI [of _ s]) (simp add: s render_layout_def same)
  qed
  have saved: "create_powerpoint env files sds topic =
           (Inr (Some (''presentations/'' @ ppt_filename env topic)),
            files(''static/presentations/'' @ ppt_filename env topic \<mapsto>
                    \<lparr>fsize = n, decodes = False, deck = Some prs\<rparr>))"
    if "\<not> makedirs_raises env ''static/presentations''
        \<and> prs_save env (''static/presentations/'' @ ppt_filename env topic) = Inr (Some n)"
    using that prs(1) by (simp add: create_powerpoint_def create_powerpoint_try_def Let_def)
  from prs(1,2) each saved same show ?thesis
    by blast
qed

theorem assembler_dispatches_on_design_type_witness:
  "\<not> pptx_raises failing_world 0 TitleRender
 \<and> \<not> pptx_raises failing_world 1 TitleRender
 \<and> design_type (sample_slide\<lparr>design_type := PStr ''timeline''\<rparr>)
     \<notin> {PStr ''title'', PStr ''content'', PStr ''image_focus'', PStr ''conclusion''}
 \<and> (\<exists>prs.
      create_powerpoint failing_world Map.empty
          [sample_slide\<lparr>design_type := PStr ''timeline''\<rparr>, sample_slide] ''Wind'' =
        (Inr (Some ''presentations/Wind_f9e8d7c6.pptx''),
         [''static/presentations/Wind_f9e8d7c6.pptx'' \<mapsto>
                 \<lparr>fsize = 30000, decodes = False, deck = Some prs\<rparr>])
    \<and> length prs = 2
    \<and> prs ! 0 = [title_box ''Wind'',
                 Textbox (5, 20, 70, 60) ''Wind turns.'' True
                   (Some (ParaFormat 16 False False (51, 51, 51) False True))]
    \<and> prs ! 1 = [title_box ''Wind'',
                 Textbox (20, 25, 120, 10) ''Wind turns.'' False
                   (Some (ParaFormat 24 False False (89, 89, 89) True False))])"
proof -
  let ?sds = "[sample_slide\<lparr>design_type := PStr ''timeline''\<rparr>, sample_slide]"
  have t0: "\<not> pptx_raises failing_world 0 TitleRender"
    and t1: "\<not> pptx_raises failing_world 1 TitleRender"
    by (simp_all add: failing_world_def)
  have unmapped: "design_type (sample_slide\<lparr>design_type := PStr ''timeline''\<rparr>)
     \<notin> {PStr ''title'', PStr ''content'', PStr ''image_focus'', PStr ''conclusion''}"
    by simp
  have titles: "\<forall>j < length ?sds. \<not> pptx_raises failing_world j TitleRender
      \<and> (\<exists>s. title (?sds ! j) = PStr s)"
    using t0 t1 by (simp add: sample_slide_def less_Suc_eq)
  have name: "ppt_filename failing_world ''Wind'' = ''Wind_f9e8d7c6.pptx''"
    by (simp add: ppt_filename_def safe_topic_def failing_world_def)
  have store: "\<not> makedirs_raises failing_world ''static/presentations''
      \<and> prs_save failing_world (''static/presentations/'' @ ppt_filename failing_world ''Wind'')
          = Inr (Some 30000)"
    by (simp add: failing_world_def)
  from assembler_dispatches_on_design_type [OF titles, of Map.empty "''Wind''" 30000] store
  obtain prs where prs:
    "length prs = length ?sds"
    "\<forall>j < length ?sds. \<exists>s.
          title (?sds ! j) = PStr s
        \<and> (design_type (?sds ! j) = PStr ''title'' \<longrightarrow>
             prs ! j = snd (add_title_slide_content failing_world Map.empty j [title_box s] (?sds ! j)))
        \<and> (design_type (?sds ! j) = PStr ''content'' \<longrightarrow>
             prs ! j = snd (add_content_slide failing_world Map.empty j [title_box s] (?sds ! j)))
        \<and> (design_type (?sds ! j) = PStr ''image_focus'' \<longrightarrow>
             prs ! j = snd (add_image_focus_slide failing_world Map.empty j [title_box s] (?sds ! j)))
        \<and> (design_type (?sds ! j) = PStr ''conclusion'' \<longrightarrow>
             prs ! j = snd (add_conclusion_slide failing_world Map.empty j [title_box s] (?sds ! j)))
        \<and> (design_type (?sds ! j)
               \<notin> {PStr ''title'', PStr ''content'', PStr ''image_focus'', PStr ''conclusion''} \<longrightarrow>
             prs ! j = snd (add_default_slide failing_world Map.empty j [title_box s] (?sds ! j))
           \<and> prs ! j = snd (add_content_slide failing_world Map.empty j [title_box s] (?sds ! j)))"
    "create_powerpoint failing_world Map.empty ?sds ''Wind'' =
           (Inr (Some (''presentations/'' @ ppt_filename failing_world ''Wind'')),
            [''static/presentations/'' @ ppt_filename failing_world ''Wind'' \<mapsto>
                    \<lparr>fsize = 30000, decodes = False, deck = Some prs\<rparr>])"
    by blast
  from prs(2) [rule_format, of 0]
  have "prs ! 0 = snd (add_content_slide failing_world Map.empty 0 [title_box ''Wind'']
                         (sample_slide\<lparr>design_type := PStr ''timeline''\<rparr>))"
    by (auto simp: sample_slide_def)
  then have p0: "prs ! 0 = [title_box ''Wind'',
                 Textbox (5, 20, 70, 60) ''Wind turns.'' True
                   (Some (ParaFormat 16 False False (51, 51, 51) False True))]"
    by (simp add: add_content_slide_def add_text_block_def add_optional_image_def
          path_truthy_def sample_slide_def failing_world_def)
  from prs(2) [rule_format, of 1]
  have "prs ! 1 = snd (add_title_slide_content failing_world Map.empty 1 [title_box ''Wind'']
                         sample_slide)"
    by (auto simp: sample_slide_def)
  then have p1: "prs ! 1 = [title_box ''Wind'',
                 Textbox (20, 25, 120, 10) ''Wind turns.'' False
                   (Some (ParaFormat 24 False False (89, 89, 89) True False))]"
    by (simp add: add_title_slide_content_def add_text_block_def add_optional_image_def
          path_truthy_def truncated_def sample_slide_def failing_world_def)
  from prs(1,3) name p0 p1 t0 t1 unmapped show ?thesis
    by (intro conjI exI [of _ prs]) simp_all
qed

section \<open>Properties of the pipeline\<close>

lemma fallback_structure_renewable_3:
  "fallback_structure ''Renewable Energy'' 3 =
     PList
       [PDict [(''slide_number'', PInt 1), (''title'', PStr ''Introduction to Renewable Energy''),
               (''design_type'', PStr ''title''),
               (''key_points'', PList [PStr ''Overview'', PStr ''Objectives'', PStr ''Key Topics''])],
        PDict [(''slide_number'', PInt 2), (''title'', PStr ''Renewable Energy - Part 1''),
               (''design_type'', PStr ''content''),
               (''key_points'', PList [PStr ''Main concepts'', PStr ''Examples'', PStr ''Applications''])],
        PDict [(''slide_number'', PInt 3), (''title'', PStr ''Conclusion''),
               (''design_type'', PStr ''conclusion''),
               (''key_points'', PList [PStr ''Summary'', PStr ''Key Takeaways'', PStr ''Next Steps''])]]"
  by code_simp

lemma invoke_stripped_raises:
  "llm_invoke env c = Inl e \<Longrightarrow> invoke_stripped env c = Inl e"
  by (simp add: invoke_stripped_def bind_e_def)

text \<open>The two writers on a well-formed slide dictionary, when the model call raises.\<close>

lemma generate_slide_content_fallback:
  assumes "llm_invoke env (ContentCall i) = Inl e"
  shows "generate_slide_content env i
           (PDict [(''slide_number'', k), (''title'', PStr t), (''design_type'', d),
                   (''key_points'', PList [PStr a, PStr b, PStr c])]) topic
         = Inr (''Content about '' @ t @ '' related to '' @ topic @ ''. This slide covers ''
                 @ a @ '', '' @ b @ '', '' @ c @ ''.'')"
  using invoke_stripped_raises [OF assms]
  by (simp add: generate_slide_content_def py_getitem_def py_join_def bind_e_def try_except_def
        fstr_def)

lemma generate_image_prompt_fallback:
  assumes "llm_invoke env (ImagePromptCall i) = Inl e"
  shows "generate_image_prompt env i
           (PDict [(''slide_number'', k), (''title'', t), (''design_type'', d),
                   (''key_points'', kp)]) topic
         = Inr (''Professional illustration about '' @ topic
                 @ '', modern design, high quality, business presentation style'')"
  using invoke_stripped_raises [OF assms]
  by (simp add: generate_image_prompt_def py_getitem_def bind_e_def try_except_def)

lemma write_slide_fallback:
  assumes "\<forall>c. \<exists>e. llm_invoke env c = Inl e"
    and "write_slides env topic (Suc i) rest = Inr others"
  shows "write_slides env topic i
           (PDict [(''slide_number'', k), (''title'', PStr t), (''design_type'', d),
                   (''key_points'', PList [PStr a, PStr b, PStr c])] # rest)
         = Inr (\<lparr>slide_number = int i + 1, title = PStr t, design_type = d,
                  content = ''Content about '' @ t @ '' related to '' @ topic
                    @ ''. This slide covers '' @ a @ '', '' @ b @ '', '' @ c @ ''.'',
                  image_prompt = ''Professional illustration about '' @ topic
                    @ '', modern design, high quality, business presentation style'',
                  image_path = None\<rparr> # others)"
proof -
  obtain e1 e2 where "llm_invoke env (ContentCall i) = Inl e1"
    "llm_invoke env (ImagePromptCall i) = Inl e2"
    using assms(1) by blast
  then show ?thesis
    using assms(2)
    by (simp add: generate_slide_content_fallback generate_image_prompt_fallback bind_e_def
          py_getitem_def)
qed

text \<open>Step 3 when the image service never yields an image: every slide stays without one.\<close>

lemma generate_image_no_image:
  assumes "\<forall>svc k p im. client env = Some svc \<longrightarrow> svc k p \<noteq> Inr (Some im)"
  shows "generate_image env files prompt k = (Inr None, files)"
proof (cases "client env")
  case None
  then show ?thesis by (simp add: generate_image_def generate_image_try_def)
next
  case (Some svc)
  let ?p = "prompt @ '', high quality, professional, clean design, presentation style, no text''"
  from assms Some have "\<forall>im. svc k ?p \<noteq> Inr (Some im)"
    by blast
  then show ?thesis
    using Some
    by (cases "svc k ?p" rule: sum.exhaust [case_names Inl Inr])
       (auto simp: generate_image_def generate_image_try_def split: option.splits)
qed

lemma generate_images_no_image:
  assumes "\<forall>svc k p im. client env = Some svc \<longrightarrow> svc k p \<noteq> Inr (Some im)"
    and "\<forall>sd \<in> set sds. image_path sd = None"
  shows "generate_images env files sds = (Inr sds, files)"
  using assms(2)
proof (induction sds)
  case Nil
  then show ?case by simp
next
  case (Cons sd sds)
  then have "generate_images env files sds = (Inr sds, files)" and "image_path sd = None"
    by simp_all
  moreover from this(2) have "sd\<lparr>image_path := None\<rparr> = sd"
    by simp
  ultimately show ?case
    by (simp add: generate_image_no_image [OF assms(1)])
qed

lemma create_powerpoint_returns:
  "\<exists>r files'. create_powerpoint env files sds topic = (Inr r, files')"
  by (cases "create_powerpoint_try env files sds topic" rule: prod.exhaust [case_names Pair])
     (auto simp: create_powerpoint_def split: sum.splits)

lemma create_powerpoint_saved:
  assumes "\<forall>j < length sds. \<not> pptx_raises env j TitleRender \<and> (\<exists>s. title (sds ! j) = PStr s)"
    and "\<not> makedirs_raises env ''static/presentations''"
    and "prs_save env (''static/presentations/'' @ ppt_filename env topic) = Inr (Some n)"
  shows "\<exists>prs. create_powerpoint env files sds topic =
        (Inr (Some (''presentations/'' @ ppt_filename env topic)),
         files(''static/presentations/'' @ ppt_filename env topic \<mapsto>
                 \<lparr>fsize = n, decodes = False, deck = Some prs\<rparr>))
      \<and> length prs = length sds"
proof -
  from assms(1) have "\<forall>j < length sds. \<not> pptx_raises env (0 + j) TitleRender
      \<and> (\<exists>s. title (sds ! j) = PStr s)"
    by simp
  from build_slides_all [OF this, of files] obtain prs where
    "build_slides env files 0 sds = Inr prs" "length prs = length sds"
    by blast
  then show ?thesis
    using assms(2,3)
    by (intro exI [of _ prs]) (simp add: create_powerpoint_def create_powerpoint_try_def Let_def)
qed

text \<open>
  C2. Topic "Renewable Energy", three slides, every call of the language model raises and the
  image service, if there is one, never yields an image. The pipeline returns success with
  three slide records, of the design types \<^verbatim>\<open>title\<close>, \<^verbatim>\<open>content\<close>, \<^verbatim>\<open>conclusion\<close>, each
  without an image. When the presentation library renders the three titles and the presentation
  is saved, the result holds the reference of the saved presentation, a non-empty string, and
  the file it refers to holds three slides.
\<close>

theorem generate_presentation_all_services_fail:
  assumes llm: "\<forall>c. \<exists>e. llm_invoke env c = Inl e"
    and img: "\<forall>svc k p im. client env = Some svc \<longrightarrow> svc k p \<noteq> Inr (Some im)"
  shows "\<exists>slides ref files'.
      generate_presentation env files ''Renewable Energy'' 3 = (Success slides ref, files')
    \<and> length slides = 3
    \<and> map design_type slides = [PStr ''title'', PStr ''content'', PStr ''conclusion'']
    \<and> map image_path slides = [None, None, None]
    \<and> ((\<forall>j < 3. \<not> pptx_raises env j TitleRender)
        \<and> \<not> makedirs_raises env ''static/presentations''
        \<and> prs_save env (''static/presentations/Renewable_Energy_'' @ take 8 (deck_uuid env) @ ''.pptx'')
            = Inr (Some n)
       \<longrightarrow> ref = Some (''presentations/Renewable_Energy_'' @ take 8 (deck_uuid env) @ ''.pptx'')
         \<and> (\<exists>prs. files' = files(''static/presentations/Renewable_Energy_''
                                    @ take 8 (deck_uuid env) @ ''.pptx''
                                  \<mapsto> \<lparr>fsize = n, decodes = False, deck = Some prs\<rparr>)
                 \<and> length prs = 3))"
proof -
  let ?prompt = "''Professional illustration about Renewable Energy, modern design, high quality, business presentation style''"
  let ?s1 = "\<lparr>slide_number = 1, title = PStr ''Introduction to Renewable Energy'',
      design_type = PStr ''title'',
      content = ''Content about Introduction to Renewable Energy related to Renewable Energy. This slide covers Overview, Objectives, Key Topics.'',
      image_prompt = ?prompt, image_path = None\<rparr>"
  let ?s2 = "\<lparr>slide_number = 2, title = PStr ''Renewable Energy - Part 1'',
      design_type = PStr ''content'',
      content = ''Content about Renewable Energy - Part 1 related to Renewable Energy. This slide covers Main concepts, Examples, Applications.'',
      image_prompt = ?prompt, image_path = None\<rparr>"
  let ?s3 = "\<lparr>slide_number = 3, title = PStr ''Conclusion'',
      design_type = PStr ''conclusion'',
      content = ''Content about Conclusion related to Renewable Energy. This slide covers Summary, Key Takeaways, Next Steps.'',
      image_prompt = ?prompt, image_path = None\<rparr>"
  let ?slides = "[?s1, ?s2, ?s3]"
  have planned: "create_slide_structure (llm_invoke env) (json_loads env) ''Renewable Energy'' 3
      = Inr (fallback_structure ''Renewable Energy'' 3)"
    by (rule create_slide_structure_fallback)
  have w3: "write_slides env ''Renewable Energy'' (Suc (Suc (Suc 0))) [] = Inr []"
    by simp
  have w2: "write_slides env ''Renewable Energy'' (Suc (Suc 0))
      [PDict [(''slide_number'', PInt 3), (''title'', PStr ''Conclusion''),
              (''design_type'', PStr ''conclusion''),
              (''key_points'', PList [PStr ''Summary'', PStr ''Key Takeaways'', PStr ''Next Steps''])]]
      = Inr [?s3]"
    using write_slide_fallback [OF llm w3] by (simp del: write_slides.simps)
  have w1: "write_slides env ''Renewable Energy'' (Suc 0)
      [PDict [(''slide_number'', PInt 2), (''title'', PStr ''Renewable Energy - Part 1''),
              (''design_type'', PStr ''content''),
              (''key_points'', PList [PStr ''Main concepts'', PStr ''Examples'', PStr ''Applications''])],
       PDict [(''slide_number'', PInt 3), (''title'', PStr ''Conclusion''),
              (''design_type'', PStr ''conclusion''),
              (''key_points'', PList [PStr ''Summary'', PStr ''Key Takeaways'', PStr ''Next Steps''])]]
      = Inr [?s2, ?s3]"
    using write_slide_fallback [OF llm w2] by (simp del: write_slides.simps)
  have written: "write_slides env ''Renewable Energy'' 0
      [PDict [(''slide_number'', PInt 1), (''title'', PStr ''Introduction to Renewable Energy''),
              (''design_type'', PStr ''title''),
              (''key_points'', PList [PStr ''Overview'', PStr ''Objectives'', PStr ''Key Topics''])],
       PDict [(''slide_number'', PInt 2), (''title'', PStr ''Renewable Energy - Part 1''),
              (''design_type'', PStr ''content''),
              (''key_points'', PList [PStr ''Main concepts'', PStr ''Examples'', PStr ''Applications''])],
       PDict [(''slide_number'', PInt 3), (''title'', PStr ''Conclusion''),
              (''design_type'', PStr ''conclusion''),
              (''key_points'', PList [PStr ''Summary'', PStr ''Key Takeaways'', PStr ''Next Steps''])]]
      = Inr ?slides"
    using write_slide_fallback [OF llm w1] by (simp del: write_slides.simps)
  have images: "generate_images env files ?slides = (Inr ?slides, files)"
    by (rule generate_images_no_image [OF img]) simp
  obtain ref files' where deck: "create_powerpoint env files ?slides ''Renewable Energy'' = (Inr ref, files')"
    using create_powerpoint_returns by blast
  have run: "generate_presentation env files ''Renewable Energy'' 3 = (Success ?slides ref, files')"
    by (simp add: generate_presentation_def generate_presentation_try_def planned
          fallback_structure_renewable_3 written images deck
          del: write_slides.simps generate_images.simps)
  have name: "ppt_filename env ''Renewable Energy''
      = ''Renewable_Energy_'' @ take 8 (deck_uuid env) @ ''.pptx''"
    by (simp add: ppt_filename_def safe_topic_def)
  have saved: "ref = Some (''presentations/Renewable_Energy_'' @ take 8 (deck_uuid env) @ ''.pptx'')
         \<and> (\<exists>prs. files' = files(''static/presentations/Renewable_Energy_''
                                    @ take 8 (deck_uuid env) @ ''.pptx''
                                  \<mapsto> \<lparr>fsize = n, decodes = False, deck = Some prs\<rparr>)
                 \<and> length prs = 3)"
    if ok: "(\<forall>j < 3. \<not> pptx_raises env j TitleRender)
        \<and> \<not> makedirs_raises env ''static/presentations''
        \<and> prs_save env (''static/presentations/Renewable_Energy_'' @ take 8 (deck_uuid env) @ ''.pptx'')
            = Inr (Some n)"
  proof -
    have titles: "\<forall>j < length ?slides. \<not> pptx_raises env j TitleRender
        \<and> (\<exists>s. title (?slides ! j) = PStr s)"
      using ok by (simp add: less_Suc_eq numeral_3_eq_3)
    have sv: "prs_save env (''static/presentations/'' @ ppt_filename env ''Renewable Energy'')
        = Inr (Some n)"
      using ok name by simp
    from ok have dirs: "\<not> makedirs_raises env ''static/presentations''"
      by simp
    from create_powerpoint_saved [OF titles dirs sv, of files] deck name
    show ?thesis by auto
  qed
  show ?thesis
    using run saved by (intro exI [of _ ?slides] exI [of _ ref] exI [of _ files']) simp
qed

theorem generate_presentation_all_services_fail_witness:
  "(\<forall>c. \<exists>e. llm_invoke failing_world c = Inl e)
 \<and> (\<exists>slides prs.
      generate_presentation failing_world Map.empty ''Renewable Energy'' 3
        = (Success slides (Some ''presentations/Renewable_Energy_f9e8d7c6.pptx''),
           [''static/presentations/Renewable_Energy_f9e8d7c6.pptx''
              \<mapsto> \<lparr>fsize = 30000, decodes = False, deck = Some prs\<rparr>])
    \<and> map design_type slides = [PStr ''title'', PStr ''content'', PStr ''conclusion'']
    \<and> map image_path slides = [None, None, None]
    \<and> length prs = 3)"
proof -
  have llm: "\<forall>c. \<exists>e. llm_invoke failing_world c = Inl e"
    by (simp add: failing_world_def)
  have img: "\<forall>svc k p im. client failing_world = Some svc \<longrightarrow> svc k p \<noteq> Inr (Some im)"
    by (auto simp: failing_world_def)
  have ok: "(\<forall>j < 3. \<not> pptx_raises failing_world j TitleRender)
        \<and> \<not> makedirs_raises failing_world ''static/presentations''
        \<and> prs_save failing_world
            (''static/presentations/Renewable_Energy_'' @ take 8 (deck_uuid failing_world) @ ''.pptx'')
            = Inr (Some 30000)"
    by (simp add: failing_world_def)
  have uuid: "take 8 (deck_uuid failing_world) = ''f9e8d7c6''"
    by (simp add: failing_world_def)
  from generate_presentation_all_services_fail [OF llm img, of Map.empty 30000]
  obtain slides ref files' where run:
    "generate_presentation failing_world Map.empty ''Renewable Energy'' 3 = (Success slides ref, files')"
    "map design_type slides = [PStr ''title'', PStr ''content'', PStr ''conclusion'']"
    "map image_path slides = [None, None, None]"
    and doc: "(\<forall>j < 3. \<not> pptx_raises failing_world j TitleRender)
        \<and> \<not> makedirs_raises failing_world ''static/presentations''
        \<and> prs_save failing_world
            (''static/presentations/Renewable_Energy_'' @ take 8 (deck_uuid failing_world) @ ''.pptx'')
            = Inr (Some 30000)
       \<longrightarrow> ref = Some (''presentations/Renewable_Energy_'' @ take 8 (deck_uuid failing_world) @ ''.pptx'')
         \<and> (\<exists>prs. files' = [''static/presentations/Renewable_Energy_''
                                    @ take 8 (deck_uuid failing_world) @ ''.pptx''
                                  \<mapsto> \<lparr>fsize = 30000, decodes = False, deck = Some prs\<rparr>]
                 \<and> length prs = 3)"
    by (elim exE conjE)
  from doc [rule_format, OF ok] obtain prs where
    "ref = Some (''presentations/Renewable_Energy_'' @ take 8 (deck_uuid failing_world) @ ''.pptx'')"
    "files' = [''static/presentations/Renewable_Energy_'' @ take 8 (deck_uuid failing_world) @ ''.pptx''
                 \<mapsto> \<lparr>fsize = 30000, decodes = False, deck = Some prs\<rparr>]"
    "length prs = 3"
    by (elim exE conjE)
  with run
  show ?thesis
    using llm by (intro conjI exI [of _ slides] exI [of _ prs]) (simp_all add: uuid)
qed

end
